theory Spec2Isabelle
  imports Complex_Main
begin

section \<open>Numbers, positions and region data\<close>

text \<open>
  The program computes on JavaScript numbers. They are modelled as real numbers: rounding,
  overflow to Infinity and signed zeros are not modelled. Where the code can divide by
  zero, the JavaScript outcome (Infinity, NaN and what follows from them) is spelled out as
  a branch of its own.

  A Leaflet position \<open>L.latLng(lat, lng)\<close> is a pair of coordinates.
\<close>

datatype error = TypeError | InvalidLatLng

datatype LatLng = latLng (lat: real) (lng: real)

text \<open>
  A ring is \<open>number[][]\<close>: a list of vertices \<open>[x, y]\<close>, that is (lng, lat).
  \<open>geoData.features\<close> is the list of the features' geometries; a geometry is a
  \<open>Polygon\<close> (coordinates: a list of rings), a \<open>MultiPolygon\<close> (a list of such
  lists) or of a type the code does not look at.
\<close>

type_synonym ring = "(real \<times> real) list"

datatype geometry = Polygon "ring list" | MultiPolygon "ring list list" | OtherGeometry

subsection \<open>checkPolygon: ray casting over one ring\<close>

text \<open>
  \<open>for (let i = 0, j = polygon.length - 1; i < polygon.length; j = i++)\<close>: the loop
  visits each vertex \<open>i\<close> together with its predecessor \<open>j\<close>, the last vertex being
  the predecessor of the first. The division by \<open>yj - yi\<close> is only evaluated when
  \<open>(yi > y) !== (yj > y)\<close>, where the divisor is not zero.
\<close>

fun checkPolygon_loop :: "real \<Rightarrow> real \<Rightarrow> ring \<Rightarrow> real \<times> real \<Rightarrow> bool \<Rightarrow> bool" where
  "checkPolygon_loop x y [] pj isInside = isInside"
| "checkPolygon_loop x y (p # rest) pj isInside =
     (let xi = fst p; yi = snd p; xj = fst pj; yj = snd pj;
          intersect = (((yi > y) \<noteq> (yj > y)) \<and> (x < (xj - xi) * (y - yi) / (yj - yi) + xi))
      in checkPolygon_loop x y rest p (if intersect then \<not> isInside else isInside))"

definition checkPolygon :: "real \<Rightarrow> real \<Rightarrow> ring \<Rightarrow> bool" where
  "checkPolygon x y polygon =
     (case polygon of [] \<Rightarrow> False | _ \<Rightarrow> checkPolygon_loop x y polygon (last polygon) False)"

subsection \<open>isInsideCountry\<close>

text \<open>
  \<open>geometry.coordinates[0]\<close> and \<open>poly[0]\<close> of an empty array are \<open>undefined\<close>, and
  \<open>polygon.length\<close> of \<open>undefined\<close> throws a TypeError.
\<close>

definition firstRing :: "ring list \<Rightarrow> error + ring" where
  "firstRing rings = (case rings of [] \<Rightarrow> Inl TypeError | r # _ \<Rightarrow> Inr r)"

fun multiPolygon_loop :: "real \<Rightarrow> real \<Rightarrow> ring list list \<Rightarrow> bool \<Rightarrow> error + bool" where
  "multiPolygon_loop x y [] inside = Inr inside"
| "multiPolygon_loop x y (poly # rest) inside =
     (case firstRing poly of
        Inl e \<Rightarrow> Inl e
      | Inr r \<Rightarrow> multiPolygon_loop x y rest (if checkPolygon x y r then \<not> inside else inside))"

fun features_loop :: "real \<Rightarrow> real \<Rightarrow> geometry list \<Rightarrow> bool \<Rightarrow> error + bool" where
  "features_loop x y [] inside = Inr inside"
| "features_loop x y (Polygon coordinates # rest) inside =
     (case firstRing coordinates of
        Inl e \<Rightarrow> Inl e
      | Inr r \<Rightarrow> features_loop x y rest (if checkPolygon x y r then \<not> inside else inside))"
| "features_loop x y (MultiPolygon coordinates # rest) inside =
     (case multiPolygon_loop x y coordinates inside of
        Inl e \<Rightarrow> Inl e
      | Inr inside' \<Rightarrow> features_loop x y rest inside')"
| "features_loop x y (OtherGeometry # rest) inside = features_loop x y rest inside"

definition isInsideCountry :: "real \<Rightarrow> real \<Rightarrow> geometry list option \<Rightarrow> error + bool" where
  "isInsideCountry plat plng geoData =
     (case geoData of None \<Rightarrow> Inr True | Some features \<Rightarrow> features_loop plng plat features False)"

text \<open>The rings the code tests: the first ring of every polygon.\<close>

fun testedRings :: "geometry \<Rightarrow> ring list" where
  "testedRings (Polygon coordinates) = take 1 coordinates"
| "testedRings (MultiPolygon coordinates) = concat (map (take 1) coordinates)"
| "testedRings OtherGeometry = []"

text \<open>All the rings of a region, holes included.\<close>

fun allRings :: "geometry \<Rightarrow> ring list" where
  "allRings (Polygon coordinates) = coordinates"
| "allRings (MultiPolygon coordinates) = concat coordinates"
| "allRings OtherGeometry = []"

text \<open>Every polygon has at least one ring.\<close>

fun hasRings :: "geometry \<Rightarrow> bool" where
  "hasRings (Polygon coordinates) = (coordinates \<noteq> [])"
| "hasRings (MultiPolygon coordinates) = list_all (\<lambda>poly. poly \<noteq> []) coordinates"
| "hasRings OtherGeometry = True"

definition ringParity :: "real \<Rightarrow> real \<Rightarrow> ring list \<Rightarrow> bool" where
  "ringParity x y rings = odd (length (filter (checkPolygon x y) rings))"

text \<open>
  The region test in the specification's words: an odd/even toggle across every ring of the
  region, holes included.
\<close>

definition spec_insideRegion :: "real \<Rightarrow> real \<Rightarrow> geometry list \<Rightarrow> bool" where
  "spec_insideRegion plat plng features = ringParity plng plat (concat (map allRings features))"

section \<open>Defense systems and constants\<close>

text \<open>
  \<open>DefenseSystem\<close> (types.ts), without the fields that only the display reads (category,
  systemCost, shotCost, targetType, killMethod, color). \<open>isActive?: boolean\<close> is optional;
  the code tests \<open>isActive !== false\<close>, so an absent flag counts as active.
\<close>

datatype SystemRole = INTERCEPTOR | RADAR

record DefenseSystem =
  sys_id :: string
  sys_lat :: real
  sys_lng :: real
  sys_range :: real
  sys_name :: string
  role :: SystemRole
  shotSpeed :: real
  isActive :: "bool option"

definition is_active :: "DefenseSystem \<Rightarrow> bool" where
  "is_active s = (isActive s \<noteq> Some False)"

definition sys_pos :: "DefenseSystem \<Rightarrow> LatLng" where
  "sys_pos s = latLng (sys_lat s) (sys_lng s)"

record Bounds =
  minLat :: real
  maxLat :: real
  minLng :: real
  maxLng :: real

definition SL_BOUNDS :: Bounds where
  "SL_BOUNDS = \<lparr> minLat = 5.8, maxLat = 9.9, minLng = 79.5, maxLng = 82.0 \<rparr>"

definition SAMPLING_POINTS_COUNT :: nat where
  "SAMPLING_POINTS_COUNT = 3600"

record City =
  city_name :: string
  city_lat :: real
  city_lng :: real
  weight :: real

definition CITIES :: "City list" where
  "CITIES =
    [ \<lparr> city_name = ''Colombo'', city_lat = 6.9271, city_lng = 79.8612, weight = 5 \<rparr>,
      \<lparr> city_name = ''Kandy'', city_lat = 7.2906, city_lng = 80.6337, weight = 3 \<rparr>,
      \<lparr> city_name = ''Galle'', city_lat = 6.0535, city_lng = 80.2210, weight = 2 \<rparr>,
      \<lparr> city_name = ''Jaffna'', city_lat = 9.6615, city_lng = 80.0104, weight = 2 \<rparr>,
      \<lparr> city_name = ''Trincomalee'', city_lat = 8.5873, city_lng = 81.2152, weight = 2 \<rparr>,
      \<lparr> city_name = ''Anuradhapura'', city_lat = 8.3114, city_lng = 80.4037, weight = 3.5 \<rparr>,
      \<lparr> city_name = ''Batticaloa'', city_lat = 7.7102, city_lng = 81.6924, weight = 1.5 \<rparr>,
      \<lparr> city_name = ''Matara'', city_lat = 5.9549, city_lng = 80.5550, weight = 2.5 \<rparr>,
      \<lparr> city_name = ''Ratnapura'', city_lat = 6.6828, city_lng = 80.3992, weight = 1.5 \<rparr>,
      \<lparr> city_name = ''Kurunegala'', city_lat = 7.4818, city_lng = 80.3609, weight = 1.5 \<rparr>,
      \<lparr> city_name = ''Pottuvil'', city_lat = 6.8724, city_lng = 81.8210, weight = 1.2 \<rparr> ]"

text \<open>
  Leaflet's \<open>a.distanceTo(b)\<close> (metres) is not part of the repository: every function that
  measures a distance takes it as the parameter \<open>distanceTo\<close>. The test the code repeats
  for radars and interceptors alike is
  \<open>point.distanceTo(L.latLng(sys.lat, sys.lng)) / 1000 <= sys.range\<close>.
\<close>

type_synonym distance = "LatLng \<Rightarrow> LatLng \<Rightarrow> real"

definition inRange :: "distance \<Rightarrow> LatLng \<Rightarrow> DefenseSystem \<Rightarrow> bool" where
  "inRange distanceTo point s = (distanceTo point (sys_pos s) / 1000 \<le> sys_range s)"

text \<open>
  Modelled from the spec: Leaflet's distance is missing from the sources; the specification
  allows a planar distance in metres. This one, with the 111 km per degree of the batch
  evaluator, stands in for it where a theorem is evaluated at concrete positions.
\<close>

definition planarDistance :: distance where
  "planarDistance a b = 111000 * sqrt ((lat a - lat b)\<^sup>2 + (lng a - lng b)\<^sup>2)"

section \<open>Coverage scoring: calculateScores\<close>

definition activeRadars :: "DefenseSystem list \<Rightarrow> DefenseSystem list" where
  "activeRadars systems = filter (\<lambda>s. role s = RADAR \<and> isActive s \<noteq> Some False) systems"

definition activeInterceptors :: "DefenseSystem list \<Rightarrow> DefenseSystem list" where
  "activeInterceptors systems =
     filter (\<lambda>s. role s = INTERCEPTOR \<and> isActive s \<noteq> Some False) systems"

definition gridSize :: nat where
  "gridSize = nat \<lfloor>sqrt (real SAMPLING_POINTS_COUNT)\<rfloor>"

definition latStep :: real where
  "latStep = (maxLat SL_BOUNDS - minLat SL_BOUNDS) / real gridSize"

definition lngStep :: real where
  "lngStep = (maxLng SL_BOUNDS - minLng SL_BOUNDS) / real gridSize"

definition samplePoint :: "nat \<Rightarrow> nat \<Rightarrow> LatLng" where
  "samplePoint i j =
     latLng (minLat SL_BOUNDS + (real i * latStep) + (latStep / 2))
            (minLng SL_BOUNDS + (real j * lngStep) + (lngStep / 2))"

text \<open>The two nested loops visit the cell centres row by row.\<close>

definition gridPoints :: "LatLng list" where
  "gridPoints = concat (map (\<lambda>i. map (\<lambda>j. samplePoint i j) [0..<gridSize]) [0..<gridSize])"

text \<open>
  \<open>radarHitsAtPoint\<close> / \<open>attackHitsAtPoint\<close>: the loop counts the first system in range
  and breaks.
\<close>

fun hitsAtPoint :: "distance \<Rightarrow> LatLng \<Rightarrow> DefenseSystem list \<Rightarrow> nat" where
  "hitsAtPoint distanceTo point [] = 0"
| "hitsAtPoint distanceTo point (s # rest) =
     (if inRange distanceTo point s then 1 else hitsAtPoint distanceTo point rest)"

record tally =
  spatialLandCoveredCount :: nat
  radarLandHitsCount :: nat
  attackLandHitsCount :: nat
  landPointsTotal :: nat
  seaPointsTotal :: nat
  combinedSeaHits :: nat

definition tally0 :: tally where
  "tally0 = \<lparr> spatialLandCoveredCount = 0, radarLandHitsCount = 0, attackLandHitsCount = 0,
              landPointsTotal = 0, seaPointsTotal = 0, combinedSeaHits = 0 \<rparr>"

definition countPoint ::
  "distance \<Rightarrow> DefenseSystem list \<Rightarrow> DefenseSystem list \<Rightarrow> bool \<Rightarrow> LatLng \<Rightarrow> tally \<Rightarrow> tally" where
  "countPoint distanceTo radars interceptors isLand point t =
     (let radarHitsAtPoint = hitsAtPoint distanceTo point radars;
          attackHitsAtPoint = hitsAtPoint distanceTo point interceptors;
          isCombinedShield = (radarHitsAtPoint > 0 \<and> attackHitsAtPoint > 0)
      in if isLand
         then t \<lparr> landPointsTotal := landPointsTotal t + 1,
                 spatialLandCoveredCount :=
                   (if isCombinedShield then spatialLandCoveredCount t + 1
                    else spatialLandCoveredCount t),
                 radarLandHitsCount :=
                   (if radarHitsAtPoint > 0 then radarLandHitsCount t + 1
                    else radarLandHitsCount t),
                 attackLandHitsCount :=
                   (if attackHitsAtPoint > 0 then attackLandHitsCount t + 1
                    else attackLandHitsCount t) \<rparr>
         else t \<lparr> seaPointsTotal := seaPointsTotal t + 1,
                 combinedSeaHits :=
                   (if isCombinedShield then combinedSeaHits t + 1 else combinedSeaHits t) \<rparr>)"

fun scorePoints ::
  "distance \<Rightarrow> DefenseSystem list \<Rightarrow> DefenseSystem list \<Rightarrow> geometry list option \<Rightarrow>
   LatLng list \<Rightarrow> tally \<Rightarrow> error + tally" where
  "scorePoints distanceTo radars interceptors geoData [] t = Inr t"
| "scorePoints distanceTo radars interceptors geoData (point # rest) t =
     (case isInsideCountry (lat point) (lng point) geoData of
        Inl e \<Rightarrow> Inl e
      | Inr isLand \<Rightarrow>
          scorePoints distanceTo radars interceptors geoData rest
            (countPoint distanceTo radars interceptors isLand point t))"

text \<open>\<open>CITIES.forEach\<close>: the pair is (combinedCityScore, totalCityWeight).\<close>

fun cityScores ::
  "distance \<Rightarrow> DefenseSystem list \<Rightarrow> DefenseSystem list \<Rightarrow> City list \<Rightarrow> real \<times> real \<Rightarrow>
   real \<times> real" where
  "cityScores distanceTo radars interceptors [] acc = acc"
| "cityScores distanceTo radars interceptors (city # rest) acc =
     (let totalCityWeight = snd acc + weight city;
          cityPt = latLng (city_lat city) (city_lng city);
          isRadarCovered = list_ex (inRange distanceTo cityPt) radars;
          isInterceptorCovered = list_ex (inRange distanceTo cityPt) interceptors;
          combinedCityScore =
            (if isRadarCovered \<and> isInterceptorCovered then fst acc + weight city else fst acc)
      in cityScores distanceTo radars interceptors rest (combinedCityScore, totalCityWeight))"

record scores =
  combinedLand :: real
  combinedCities :: real
  combinedSea :: real
  radarLand :: real
  attackLand :: real

text \<open>\<open>total > 0 ? (count / total) * 100 : 0\<close>\<close>

definition percentage :: "real \<Rightarrow> real \<Rightarrow> real" where
  "percentage cnt tot = (if tot > 0 then (cnt / tot) * 100 else 0)"

definition gridTally ::
  "distance \<Rightarrow> DefenseSystem list \<Rightarrow> geometry list option \<Rightarrow> error + tally" where
  "gridTally distanceTo defenseSystems geoData =
     scorePoints distanceTo (activeRadars defenseSystems) (activeInterceptors defenseSystems)
       geoData gridPoints tally0"

definition cityTotals :: "distance \<Rightarrow> DefenseSystem list \<Rightarrow> real \<times> real" where
  "cityTotals distanceTo defenseSystems =
     cityScores distanceTo (activeRadars defenseSystems) (activeInterceptors defenseSystems)
       CITIES (0, 0)"

definition calculateScores ::
  "distance \<Rightarrow> DefenseSystem list \<Rightarrow> geometry list option \<Rightarrow> error + scores" where
  "calculateScores distanceTo defenseSystems geoData =
     (case geoData of
        None \<Rightarrow>
          Inr \<lparr> combinedLand = 0, combinedCities = 0, combinedSea = 0, radarLand = 0,
                attackLand = 0 \<rparr>
      | Some features \<Rightarrow>
          (case gridTally distanceTo defenseSystems geoData of
             Inl e \<Rightarrow> Inl e
           | Inr t \<Rightarrow>
               (let c = cityTotals distanceTo defenseSystems
                in Inr \<lparr> combinedLand =
                           percentage (real (spatialLandCoveredCount t)) (real (landPointsTotal t)),
                         combinedCities = percentage (fst c) (snd c),
                         combinedSea =
                           percentage (real (combinedSeaHits t)) (real (seaPointsTotal t)),
                         radarLand =
                           percentage (real (radarLandHitsCount t)) (real (landPointsTotal t)),
                         attackLand =
                           percentage (real (attackLandHitsCount t)) (real (landPointsTotal t)) \<rparr>)))"

subsection \<open>What the coverage theorems speak about\<close>

text \<open>
  A sample point is land when \<open>isInsideCountry\<close> answers true for it; it is covered by a
  radar (an interceptor) when some active radar (interceptor) has it in range.
\<close>

definition isLandPoint :: "geometry list option \<Rightarrow> LatLng \<Rightarrow> bool" where
  "isLandPoint geoData point = (isInsideCountry (lat point) (lng point) geoData = Inr True)"

definition radarCovered :: "distance \<Rightarrow> DefenseSystem list \<Rightarrow> LatLng \<Rightarrow> bool" where
  "radarCovered distanceTo systems point =
     list_ex (inRange distanceTo point) (activeRadars systems)"

definition interceptorCovered :: "distance \<Rightarrow> DefenseSystem list \<Rightarrow> LatLng \<Rightarrow> bool" where
  "interceptorCovered distanceTo systems point =
     list_ex (inRange distanceTo point) (activeInterceptors systems)"

definition countWhere :: "('a \<Rightarrow> bool) \<Rightarrow> 'a list \<Rightarrow> real" where
  "countWhere P xs = real (length (filter P xs))"

text \<open>
  The two land metrics in the specification's words: the percentage of land points covered
  by a radar but not by an interceptor, and by an interceptor but not by a radar.
\<close>

definition spec_radarOnlyLand ::
  "distance \<Rightarrow> DefenseSystem list \<Rightarrow> geometry list option \<Rightarrow> real" where
  "spec_radarOnlyLand distanceTo systems geoData =
     percentage
       (countWhere (\<lambda>p. isLandPoint geoData p \<and> radarCovered distanceTo systems p \<and>
                         \<not> interceptorCovered distanceTo systems p) gridPoints)
       (countWhere (isLandPoint geoData) gridPoints)"

definition spec_interceptorOnlyLand ::
  "distance \<Rightarrow> DefenseSystem list \<Rightarrow> geometry list option \<Rightarrow> real" where
  "spec_interceptorOnlyLand distanceTo systems geoData =
     percentage
       (countWhere (\<lambda>p. isLandPoint geoData p \<and> interceptorCovered distanceTo systems p \<and>
                         \<not> radarCovered distanceTo systems p) gridPoints)
       (countWhere (isLandPoint geoData) gridPoints)"

text \<open>
  A concrete deployment for evaluation: a rectangle around the whole sampling box as the
  region, a radar and an interceptor at the centre of the box whose ranges reach every
  sample point and every city.
\<close>

definition demoRegion :: "geometry list" where
  "demoRegion = [Polygon [[(70, 0), (90, 0), (90, 20), (70, 20)]]]"

definition demoRadar :: DefenseSystem where
  "demoRadar = \<lparr> sys_id = ''r1'', sys_lat = 7.85, sys_lng = 80.75, sys_range = 500,
                 sys_name = ''JY-27-1'', role = RADAR, shotSpeed = 0, isActive = Some True \<rparr>"

definition demoInterceptor :: DefenseSystem where
  "demoInterceptor = \<lparr> sys_id = ''i1'', sys_lat = 7.85, sys_lng = 80.75, sys_range = 400,
                 sys_name = ''Custom-1'', role = INTERCEPTOR, shotSpeed = 0.25, isActive = None \<rparr>"

section \<open>Kinematic simulation: AttackSimulator\<close>

datatype ThreatStatus = MOVING | INTERCEPTED | IMPACTED

text \<open>
  The \<open>Threat\<close> interface. Optional fields are options; \<open>type\<close> is \<open>threatType\<close>.
\<close>

record Threat =
  threat_id :: string
  start :: LatLng
  target :: LatLng
  current :: LatLng
  startTime :: real
  status :: ThreatStatus
  speed :: real
  threatType :: string
  interceptorId :: "string option"
  interceptorPos :: "LatLng option"
  predictedInterceptPoint :: "LatLng option"
  detectedByRadarId :: "string option"

record MissileType =
  missile_id :: string
  missile_label :: string
  speedMod :: real

definition BASE_THREAT_SPEED :: real where
  "BASE_THREAT_SPEED = 0.005"

definition MISSILE_TYPES :: "MissileType list" where
  "MISSILE_TYPES =
    [ \<lparr> missile_id = ''drone'', missile_label = ''Suicide Drone'', speedMod = 0.6 \<rparr>,
      \<lparr> missile_id = ''cruise'', missile_label = ''Cruise Missile'', speedMod = 1.5 \<rparr>,
      \<lparr> missile_id = ''ballistic'', missile_label = ''Ballistic Missile'', speedMod = 4.0 \<rparr>,
      \<lparr> missile_id = ''hypersonic'', missile_label = ''Hypersonic'', speedMod = 12.0 \<rparr> ]"

text \<open>
  \<open>Math.atan2(y, x)\<close> on real numbers; \<open>atan2(0, 0)\<close> is 0 (both differences the
  code passes are \<open>+0\<close> when they vanish).
\<close>

definition atan2 :: "real \<Rightarrow> real \<Rightarrow> real" where
  "atan2 y x =
     (if x > 0 then arctan (y / x)
      else if x < 0 then (if y \<ge> 0 then arctan (y / x) + pi else arctan (y / x) - pi)
      else if y > 0 then pi / 2
      else if y < 0 then - (pi / 2)
      else 0)"

text \<open>
  JavaScript truthiness of an optional string: \<open>undefined\<close> and the empty string are
  falsy. \<open>x || d\<close> on a number replaces 0 by \<open>d\<close>.
\<close>

definition truthy_id :: "string option \<Rightarrow> bool" where
  "truthy_id i = (case i of None \<Rightarrow> False | Some s \<Rightarrow> s \<noteq> [])"

definition or_default :: "real \<Rightarrow> real \<Rightarrow> real" where
  "or_default x d = (if x \<noteq> 0 then x else d)"

subsection \<open>calculateIntercept\<close>

text \<open>
  \<open>const t = (-b - Math.sqrt(disc)) / (2 * a)\<close> divides by zero when \<open>a = 0\<close>. Then
  \<open>disc = b * b\<close> and the numerator \<open>-b - |b|\<close> is never positive: a negative numerator
  gives \<open>-Infinity\<close>, which is \<open>< 0\<close> (the function returns null); a zero numerator gives
  \<open>NaN\<close>, which is not \<open>< 0\<close>, and \<open>L.latLng(NaN, NaN)\<close> throws Leaflet's
  "Invalid LatLng object".
\<close>

definition calculateIntercept :: "Threat \<Rightarrow> DefenseSystem \<Rightarrow> error + LatLng option" where
  "calculateIntercept threat interceptor =
     (let Vt = speed threat;
          Vi = or_default (shotSpeed interceptor) 0.22;
          interceptorBase = latLng (sys_lat interceptor) (sys_lng interceptor);
          angle = atan2 (lat (target threat) - lat (start threat))
                        (lng (target threat) - lng (start threat));
          vx = cos angle * Vt;
          vy = sin angle * Vt;
          dx = lng (current threat) - lng interceptorBase;
          dy = lat (current threat) - lat interceptorBase;
          a = vx * vx + vy * vy - Vi * Vi;
          b = 2 * (vx * dx + vy * dy);
          c = dx * dx + dy * dy;
          disc = b * b - 4 * a * c
      in if disc < 0 then Inr None
         else if 2 * a = 0
              then (if - b - sqrt disc < 0 then Inr None else Inl InvalidLatLng)
              else (let t = (- b - sqrt disc) / (2 * a)
                    in if t < 0 then Inr None
                       else Inr (Some (latLng (lat (current threat) + vy * t)
                                              (lng (current threat) + vx * t)))))"

text \<open>
  The quantities the theorems about the intercept speak of: the threat's velocity, the shot
  speed the code uses, and the quadratic \<open>a t\<^sup>2 + b t + c\<close> of the pursuit equation.
\<close>

definition threatVelocity :: "Threat \<Rightarrow> real \<times> real" where
  "threatVelocity threat =
     (let angle = atan2 (lat (target threat) - lat (start threat))
                        (lng (target threat) - lng (start threat))
      in (cos angle * speed threat, sin angle * speed threat))"

definition positionAt :: "Threat \<Rightarrow> real \<Rightarrow> LatLng" where
  "positionAt threat t =
     latLng (lat (current threat) + snd (threatVelocity threat) * t)
            (lng (current threat) + fst (threatVelocity threat) * t)"

definition pursuitQuadratic :: "real \<Rightarrow> Threat \<Rightarrow> DefenseSystem \<Rightarrow> real \<Rightarrow> real" where
  "pursuitQuadratic Vi threat interceptor t =
     (let vx = fst (threatVelocity threat); vy = snd (threatVelocity threat);
          dx = lng (current threat) - sys_lng interceptor;
          dy = lat (current threat) - sys_lat interceptor
      in (vx\<^sup>2 + vy\<^sup>2 - Vi\<^sup>2) * t\<^sup>2 + 2 * (vx * dx + vy * dy) * t + (dx\<^sup>2 + dy\<^sup>2))"

text \<open>The quadratic in the specification's words: \<open>a = |v_threat|\<^sup>2 - shotSpeed\<^sup>2\<close>.\<close>

definition spec_quadratic :: "Threat \<Rightarrow> DefenseSystem \<Rightarrow> real \<Rightarrow> real" where
  "spec_quadratic threat interceptor t = pursuitQuadratic (shotSpeed interceptor) threat interceptor t"

subsection \<open>One threat in one sub-step\<close>

definition nextPosition :: "real \<Rightarrow> Threat \<Rightarrow> LatLng" where
  "nextPosition dt threat =
     (let angle = atan2 (lat (target threat) - lat (start threat))
                        (lng (target threat) - lng (start threat))
      in latLng (lat (current threat) + sin angle * speed threat * dt)
                (lng (current threat) + cos angle * speed threat * dt))"

text \<open>
  \<open>activeInterceptors.sort((a, b) => (b.shotSpeed || 0) - (a.shotSpeed || 0))\<close>: a stable
  sort by descending shot speed.
\<close>

definition bestCandidates :: "DefenseSystem list \<Rightarrow> DefenseSystem list" where
  "bestCandidates systems = sort_key (\<lambda>s. - shotSpeed s) (activeInterceptors systems)"

text \<open>
  \<open>for (const interceptor of bestCandidates)\<close>: the first candidate with a predicted
  point within its range is bound, and the loop breaks.
\<close>

fun bindFirst :: "distance \<Rightarrow> Threat \<Rightarrow> DefenseSystem list \<Rightarrow> error + Threat" where
  "bindFirst distanceTo threat [] = Inr threat"
| "bindFirst distanceTo threat (interceptor # rest) =
     (case calculateIntercept threat interceptor of
        Inl e \<Rightarrow> Inl e
      | Inr None \<Rightarrow> bindFirst distanceTo threat rest
      | Inr (Some predictedPos) \<Rightarrow>
          (if distanceTo predictedPos (latLng (sys_lat interceptor) (sys_lng interceptor)) / 1000
                \<le> sys_range interceptor
           then Inr (threat \<lparr> interceptorId := Some (sys_id interceptor),
                              interceptorPos := Some (latLng (sys_lat interceptor) (sys_lng interceptor)),
                              predictedInterceptPoint := Some predictedPos \<rparr>)
           else bindFirst distanceTo threat rest))"

text \<open>Detection and assignment (the block under "Only use active radars").\<close>

definition detectAndBind ::
  "distance \<Rightarrow> DefenseSystem list \<Rightarrow> LatLng \<Rightarrow> Threat \<Rightarrow> error + Threat" where
  "detectAndBind distanceTo systems nextPos threat =
     (case List.find (\<lambda>r. distanceTo nextPos (latLng (sys_lat r) (sys_lng r)) / 1000 \<le> sys_range r)
             (activeRadars systems) of
        None \<Rightarrow> Inr threat
      | Some detectingRadar \<Rightarrow>
          (let threat' = threat \<lparr> detectedByRadarId := Some (sys_id detectingRadar) \<rparr>
           in if \<not> truthy_id (interceptorId threat')
              then bindFirst distanceTo threat' (bestCandidates systems)
              else Inr threat'))"

definition killRadius :: "real \<Rightarrow> Threat \<Rightarrow> real" where
  "killRadius currentSpeed threat =
     900 + (if currentSpeed > 50 then currentSpeed * 2 else 0) + (speed threat * 20000)"

definition impactThreshold :: "real \<Rightarrow> real" where
  "impactThreshold currentSpeed = 600 + (if currentSpeed > 500 then currentSpeed else 0)"

text \<open>
  The pursuit position one sub-step later, for a threat whose interceptor stands at
  \<open>ipos\<close>: \<open>systemsRef.current.find(sys => sys.id === threat.interceptorId)\<close> looks the
  unit up among all systems, with no look at its active flag, and a unit that is not found
  shoots at 0.22.
\<close>

definition nextInterceptorPos ::
  "DefenseSystem list \<Rightarrow> real \<Rightarrow> LatLng \<Rightarrow> Threat \<Rightarrow> LatLng \<Rightarrow> LatLng" where
  "nextInterceptorPos systems dt nextPos threat ipos =
     (let targetGoal = (case predictedInterceptPoint threat of Some p \<Rightarrow> p | None \<Rightarrow> nextPos);
          interceptor = List.find (\<lambda>sys. Some (sys_id sys) = interceptorId threat) systems;
          shotSpeed' = or_default (case interceptor of None \<Rightarrow> 0 | Some i \<Rightarrow> shotSpeed i) 0.22;
          iAngle = atan2 (lat targetGoal - lat ipos) (lng targetGoal - lng ipos)
      in latLng (lat ipos + sin iAngle * shotSpeed' * dt)
                (lng ipos + cos iAngle * shotSpeed' * dt))"

datatype resolution = Unresolved | Killed | Hit

text \<open>
  The impact check and the final move (from \<open>const impactThreshold\<close> on).
\<close>

definition impactOrMove ::
  "distance \<Rightarrow> real \<Rightarrow> LatLng \<Rightarrow> Threat \<Rightarrow> Threat \<times> resolution" where
  "impactOrMove distanceTo currentSpeed nextPos threat =
     (if distanceTo nextPos (target threat) < impactThreshold currentSpeed
      then (threat \<lparr> status := IMPACTED, current := target threat \<rparr>, Hit)
      else (threat \<lparr> current := nextPos \<rparr>, Unresolved))"

text \<open>The pursuit and the kill check (the block under \<open>if (threat.interceptorId && threat.interceptorPos)\<close>), then the impact check.\<close>

definition pursueAndResolve ::
  "distance \<Rightarrow> DefenseSystem list \<Rightarrow> real \<Rightarrow> real \<Rightarrow> LatLng \<Rightarrow> Threat \<Rightarrow> Threat \<times> resolution" where
  "pursueAndResolve distanceTo systems currentSpeed dt nextPos threat =
     (case (if truthy_id (interceptorId threat) then interceptorPos threat else None) of
        Some ipos \<Rightarrow>
          (let nextIPos = nextInterceptorPos systems dt nextPos threat ipos
           in if distanceTo nextIPos nextPos < killRadius currentSpeed threat
              then (threat \<lparr> status := INTERCEPTED, current := nextPos \<rparr>, Killed)
              else impactOrMove distanceTo currentSpeed nextPos
                     (threat \<lparr> interceptorPos := Some nextIPos \<rparr>))
      | None \<Rightarrow> impactOrMove distanceTo currentSpeed nextPos threat)"

text \<open>The body of the inner loop for one threat: \<open>continue\<close> leaves a threat that is not MOVING as it is.\<close>

definition stepThreat ::
  "distance \<Rightarrow> DefenseSystem list \<Rightarrow> real \<Rightarrow> real \<Rightarrow> Threat \<Rightarrow> error + Threat \<times> resolution" where
  "stepThreat distanceTo systems currentSpeed dt threat =
     (if status threat \<noteq> MOVING then Inr (threat, Unresolved)
      else (let nextPos = nextPosition dt threat
            in case detectAndBind distanceTo systems nextPos threat of
                 Inl e \<Rightarrow> Inl e
               | Inr threat' \<Rightarrow>
                   Inr (pursueAndResolve distanceTo systems currentSpeed dt nextPos threat')))"

subsection \<open>The simulation state and its events\<close>

record Stats =
  launched :: nat
  intercepted :: nat
  impacted :: nat

record SimState =
  threats :: "Threat list"
  stats :: Stats
  lastUpdate :: real

definition countResolution :: "resolution \<Rightarrow> Stats \<Rightarrow> Stats" where
  "countResolution r st =
     (case r of
        Unresolved \<Rightarrow> st
      | Killed \<Rightarrow> st \<lparr> intercepted := intercepted st + 1 \<rparr>
      | Hit \<Rightarrow> st \<lparr> impacted := impacted st + 1 \<rparr>)"

text \<open>\<open>for (let i = 0; i < nextThreats.length; i++)\<close>: one pass over the threats.\<close>

fun stepThreats ::
  "distance \<Rightarrow> DefenseSystem list \<Rightarrow> real \<Rightarrow> real \<Rightarrow> Threat list \<Rightarrow> Stats \<Rightarrow>
   error + Threat list \<times> Stats" where
  "stepThreats distanceTo systems currentSpeed dt [] st = Inr ([], st)"
| "stepThreats distanceTo systems currentSpeed dt (threat # rest) st =
     (case stepThreat distanceTo systems currentSpeed dt threat of
        Inl e \<Rightarrow> Inl e
      | Inr (threat', r) \<Rightarrow>
          (case stepThreats distanceTo systems currentSpeed dt rest (countResolution r st) of
             Inl e \<Rightarrow> Inl e
           | Inr (rest', st') \<Rightarrow> Inr (threat' # rest', st')))"

text \<open>\<open>for (let s = 0; s < substeps; s++)\<close>\<close>

fun substepLoop ::
  "distance \<Rightarrow> DefenseSystem list \<Rightarrow> real \<Rightarrow> real \<Rightarrow> nat \<Rightarrow> Threat list \<Rightarrow> Stats \<Rightarrow>
   error + Threat list \<times> Stats" where
  "substepLoop distanceTo systems currentSpeed dt 0 ts st = Inr (ts, st)"
| "substepLoop distanceTo systems currentSpeed dt (Suc n) ts st =
     (case stepThreats distanceTo systems currentSpeed dt ts st of
        Inl e \<Rightarrow> Inl e
      | Inr (ts', st') \<Rightarrow> substepLoop distanceTo systems currentSpeed dt n ts' st')"

text \<open>
  \<open>updateSimulation(time)\<close>, with \<open>systemsRef.current\<close> and \<open>speedRef.current\<close> as
  arguments. The first frame only records the time. \<open>changed\<close> is set on every path
  through the body for a MOVING threat and the body does nothing for any other threat, so
  \<open>changed ? nextThreats : prevThreats\<close> holds the same threats either way. The counters
  are bumped once per resolution (each state updater runs once). An exception leaves the
  updater: the result is the error.
\<close>

definition updateSimulation ::
  "distance \<Rightarrow> DefenseSystem list \<Rightarrow> real \<Rightarrow> real \<Rightarrow> SimState \<Rightarrow> error + SimState" where
  "updateSimulation distanceTo systems currentSpeed time s =
     (if lastUpdate s = 0 then Inr (s \<lparr> lastUpdate := time \<rparr>)
      else (let rawDeltaTime = (time - lastUpdate s) / 1000;
                substeps = min 1000 \<lceil>currentSpeed * 2.5\<rceil>;
                dt = (rawDeltaTime * currentSpeed) / real_of_int substeps
            in if threats s = [] then Inr (s \<lparr> lastUpdate := time \<rparr>)
               else (case substepLoop distanceTo systems currentSpeed dt (nat substeps)
                            (threats s) (stats s) of
                       Inl e \<Rightarrow> Inl e
                     | Inr (ts', st') \<Rightarrow>
                         Inr (s \<lparr> threats := ts', stats := st', lastUpdate := time \<rparr>))))"

text \<open>
  \<open>launchThreat(start, target)\<close>; the random id, the clock, the selected missile type and
  the speed scale are arguments.
\<close>

definition launchThreat ::
  "string \<Rightarrow> real \<Rightarrow> MissileType \<Rightarrow> real \<Rightarrow> LatLng \<Rightarrow> LatLng \<Rightarrow> SimState \<Rightarrow> SimState" where
  "launchThreat newId now attackerType attackerSpeedScale startPos targetPos s =
     (let finalSpeed = BASE_THREAT_SPEED * speedMod attackerType * attackerSpeedScale;
          newThreat = \<lparr> threat_id = newId, start = startPos, target = targetPos,
                        current = startPos, startTime = now, status = MOVING,
                        speed = finalSpeed, threatType = missile_id attackerType,
                        interceptorId = None, interceptorPos = None,
                        predictedInterceptPoint = None, detectedByRadarId = None \<rparr>
      in s \<lparr> threats := threats s @ [newThreat],
             stats := (stats s) \<lparr> launched := launched (stats s) + 1 \<rparr> \<rparr>)"

text \<open>Activation sets the clock; deactivation clears threats and counters.\<close>

definition activate :: "real \<Rightarrow> SimState \<Rightarrow> SimState" where
  "activate now s = s \<lparr> lastUpdate := now \<rparr>"

definition deactivate :: "SimState \<Rightarrow> SimState" where
  "deactivate s = s \<lparr> threats := [], stats := \<lparr> launched = 0, intercepted = 0, impacted = 0 \<rparr> \<rparr>"

definition initialState :: SimState where
  "initialState = \<lparr> threats = [], stats = \<lparr> launched = 0, intercepted = 0, impacted = 0 \<rparr>,
                    lastUpdate = 0 \<rparr>"

datatype event =
    Activate real
  | Deactivate
  | Launch string real MissileType real LatLng LatLng
  | Tick "DefenseSystem list" real real

fun applyEvent :: "distance \<Rightarrow> event \<Rightarrow> SimState \<Rightarrow> error + SimState" where
  "applyEvent distanceTo (Activate now) s = Inr (activate now s)"
| "applyEvent distanceTo Deactivate s = Inr (deactivate s)"
| "applyEvent distanceTo (Launch newId now attackerType attackerSpeedScale startPos targetPos) s =
     Inr (launchThreat newId now attackerType attackerSpeedScale startPos targetPos s)"
| "applyEvent distanceTo (Tick systems currentSpeed time) s =
     updateSimulation distanceTo systems currentSpeed time s"

fun run :: "distance \<Rightarrow> event list \<Rightarrow> SimState \<Rightarrow> error + SimState" where
  "run distanceTo [] s = Inr s"
| "run distanceTo (ev # evs) s =
     (case applyEvent distanceTo ev s of Inl e \<Rightarrow> Inl e | Inr s' \<Rightarrow> run distanceTo evs s')"

definition movingCount :: "Threat list \<Rightarrow> nat" where
  "movingCount ts = length (filter (\<lambda>t. status t = MOVING) ts)"

section \<open>Random draws\<close>

text \<open>
  \<open>Math.random()\<close> is modelled by the sequence \<open>rnd\<close> of the values it returns, in
  the order of the calls; a function that draws takes the number of draws made so far and
  returns the new number. Each value lies in [0, 1).
\<close>

type_synonym draws = "nat \<Rightarrow> real"

definition unitInterval :: "draws \<Rightarrow> bool" where
  "unitInterval rnd = (\<forall>k. 0 \<le> rnd k \<and> rnd k < 1)"

section \<open>Deployment mutation: mutateDeployment\<close>

definition inBounds :: "DefenseSystem \<Rightarrow> bool" where
  "inBounds s =
     (minLat SL_BOUNDS \<le> sys_lat s \<and> sys_lat s \<le> maxLat SL_BOUNDS \<and>
      minLng SL_BOUNDS \<le> sys_lng s \<and> sys_lng s \<le> maxLng SL_BOUNDS)"

text \<open>
  The function mapped over the layout, for the unit \<open>sys\<close> after \<open>n\<close> draws.
  \<open>forceHighEntropy && Math.random() < 0.08\<close> draws only under \<open>forceHighEntropy\<close>.
\<close>

definition mutateUnit :: "bool \<Rightarrow> bool \<Rightarrow> draws \<Rightarrow> nat \<Rightarrow> DefenseSystem \<Rightarrow> DefenseSystem \<times> nat" where
  "mutateUnit radarSecured forceHighEntropy rnd n sys =
     (if \<not> forceHighEntropy \<and> radarSecured \<and> role sys = RADAR then (sys, n)
      else (let mutationChance = (if forceHighEntropy then 0.45 else 0.25 :: real)
            in if rnd n > mutationChance then (sys, n + 1)
               else if forceHighEntropy \<and> rnd (n + 1) < 0.08
               then (sys \<lparr> sys_lat := rnd (n + 2) * (maxLat SL_BOUNDS - minLat SL_BOUNDS)
                                        + minLat SL_BOUNDS,
                           sys_lng := rnd (n + 3) * (maxLng SL_BOUNDS - minLng SL_BOUNDS)
                                        + minLng SL_BOUNDS \<rparr>,
                     n + 4)
               else (let m = (if forceHighEntropy then n + 2 else n + 1);
                         moveAmount = (if role sys = RADAR then 1.5 else 0.45 :: real);
                         entropyMultiplier = (if forceHighEntropy then 2.5 else 1.0 :: real);
                         newLat = sys_lat sys + (rnd m - 0.5) * moveAmount * entropyMultiplier;
                         newLng = sys_lng sys + (rnd (m + 1) - 0.5) * moveAmount * entropyMultiplier;
                         newLat' = max (minLat SL_BOUNDS) (min (maxLat SL_BOUNDS) newLat);
                         newLng' = max (minLng SL_BOUNDS) (min (maxLng SL_BOUNDS) newLng)
                     in (sys \<lparr> sys_lat := newLat', sys_lng := newLng' \<rparr>, m + 2))))"

fun mutateLoop :: "bool \<Rightarrow> bool \<Rightarrow> draws \<Rightarrow> nat \<Rightarrow> DefenseSystem list \<Rightarrow> DefenseSystem list" where
  "mutateLoop radarSecured forceHighEntropy rnd n [] = []"
| "mutateLoop radarSecured forceHighEntropy rnd n (sys # rest) =
     (let (sys', n') = mutateUnit radarSecured forceHighEntropy rnd n sys
      in sys' # mutateLoop radarSecured forceHighEntropy rnd n' rest)"

text \<open>
  \<open>geoData\<close> and \<open>placementStrategy\<close> are parameters the function never reads;
  \<open>forceHighEntropy\<close> defaults to false at the call.
\<close>

definition mutateDeployment ::
  "DefenseSystem list \<Rightarrow> bool \<Rightarrow> geometry list option \<Rightarrow> string \<Rightarrow> bool \<Rightarrow> draws \<Rightarrow>
   DefenseSystem list" where
  "mutateDeployment baseSystems radarSecured geoData placementStrategy forceHighEntropy rnd =
     mutateLoop radarSecured forceHighEntropy rnd 0 baseSystems"

text \<open>
  A radar the random placement can produce east of the bounding box (a strategic location
  or city plus an offset: Pottuvil lies at longitude 81.821, the box ends at 82.0).
\<close>

definition coastRadar :: DefenseSystem where
  "coastRadar = \<lparr> sys_id = ''r9'', sys_lat = 6.8724, sys_lng = 82.1, sys_range = 250,
                  sys_name = ''YLC-18-2'', role = RADAR, shotSpeed = 0, isActive = Some True \<rparr>"

section \<open>Statistical batch evaluator: runBatchTest\<close>

text \<open>
  Leaflet's \<open>L.LineUtil.pointToSegmentDistance(p, p1, p2)\<close> on points \<open>L.point(x, y)\<close> is
  not part of the repository: it is the parameter \<open>pointToSegmentDistance\<close>.
\<close>

type_synonym segmentDistance = "real \<times> real \<Rightarrow> real \<times> real \<Rightarrow> real \<times> real \<Rightarrow> real"

datatype batchLog =
    InterceptedNear nat string
  | CriticalFailure nat string
  | UndetectedImpact nat string

record BatchState =
  totalLaunched :: nat
  interceptedCount :: nat
  impactedCount :: nat
  detectedCount :: nat
  batchLogs :: "batchLog list"
  drawn :: nat

record BatchResults =
  results_totalLaunched :: nat
  results_intercepted :: nat
  results_impacted :: nat
  detectionRate :: "real option"
  logs :: "batchLog list"

text \<open>
  \<open>speedAdvantage > 0.8\<close> with
  \<open>speedAdvantage = (interceptor.shotSpeed || 0.25) / (0.005 * selectedMissile.speedMod)\<close>:
  a zero divisor gives Infinity for a positive numerator and -Infinity for a negative one
  (the numerator is never 0).
\<close>

definition fastEnough :: "DefenseSystem \<Rightarrow> MissileType \<Rightarrow> bool" where
  "fastEnough interceptor selectedMissile =
     (let num = or_default (shotSpeed interceptor) 0.25;
          den = 0.005 * speedMod selectedMissile
      in if den = 0 then num > 0 else num / den > 0.8)"

definition nearPath :: "segmentDistance \<Rightarrow> LatLng \<Rightarrow> LatLng \<Rightarrow> DefenseSystem \<Rightarrow> bool" where
  "nearPath pointToSegmentDistance startPos targetPos s =
     (pointToSegmentDistance (sys_lng s, sys_lat s) (lng startPos, lat startPos)
        (lng targetPos, lat targetPos) * 111 \<le> sys_range s)"

text \<open>
  One synthetic trial of round \<open>r\<close> (the body of the inner loop). It draws three times:
  the side, the place on that side, the target city. \<open>CITIES[k]\<close> outside the table is
  \<open>undefined\<close>, and reading its \<open>lat\<close> throws a TypeError. The two loops with
  \<open>break\<close> test whether some radar, some interceptor qualifies.
\<close>

definition runTrial ::
  "segmentDistance \<Rightarrow> DefenseSystem list \<Rightarrow> DefenseSystem list \<Rightarrow> MissileType \<Rightarrow> draws \<Rightarrow>
   nat \<Rightarrow> BatchState \<Rightarrow> error + BatchState" where
  "runTrial pointToSegmentDistance radars interceptors selectedMissile rnd r st =
     (let total = totalLaunched st + 1;
          n = drawn st;
          side = \<lfloor>rnd n * 4\<rfloor>;
          b = SL_BOUNDS;
          startLat = (if side = 0 then maxLat b + 1
                      else if side = 1 then minLat b - 1
                      else minLat b + rnd (n + 1) * (maxLat b - minLat b));
          startLng = (if side = 0 \<or> side = 1 then minLng b + rnd (n + 1) * (maxLng b - minLng b)
                      else if side = 2 then maxLng b + 1
                      else minLng b - 1);
          k = \<lfloor>rnd (n + 2) * real (length CITIES)\<rfloor>
      in if k < 0 \<or> int (length CITIES) \<le> k then Inl TypeError
         else (let targetCity = CITIES ! nat k;
                   startPos = latLng startLat startLng;
                   targetPos = latLng (city_lat targetCity) (city_lng targetCity);
                   st1 = st \<lparr> totalLaunched := total, drawn := n + 3 \<rparr>;
                   detected = list_ex (nearPath pointToSegmentDistance startPos targetPos) radars
               in if detected
                  then (let hit = list_ex (\<lambda>i. nearPath pointToSegmentDistance startPos targetPos i \<and>
                                               fastEnough i selectedMissile) interceptors
                        in if hit
                           then Inr (st1 \<lparr> detectedCount := detectedCount st + 1,
                                           interceptedCount := interceptedCount st + 1,
                                           batchLogs :=
                                             (if total mod 100 = 0
                                              then batchLogs st @ [InterceptedNear (r + 1) (city_name targetCity)]
                                              else batchLogs st) \<rparr>)
                           else Inr (st1 \<lparr> detectedCount := detectedCount st + 1,
                                           impactedCount := impactedCount st + 1,
                                           batchLogs :=
                                             (if total mod 50 = 0
                                              then batchLogs st @ [CriticalFailure (r + 1) (city_name targetCity)]
                                              else batchLogs st) \<rparr>))
                  else Inr (st1 \<lparr> impactedCount := impactedCount st + 1,
                                  batchLogs :=
                                    (if total mod 20 = 0
                                     then batchLogs st @ [UndetectedImpact (r + 1) (city_name targetCity)]
                                     else batchLogs st) \<rparr>)))"

text \<open>\<open>for (let m = 0; m < missilesPerRound; m++)\<close>, counted down.\<close>

fun missilesLoop ::
  "segmentDistance \<Rightarrow> DefenseSystem list \<Rightarrow> DefenseSystem list \<Rightarrow> MissileType \<Rightarrow> draws \<Rightarrow>
   nat \<Rightarrow> nat \<Rightarrow> BatchState \<Rightarrow> error + BatchState" where
  "missilesLoop psd radars interceptors selectedMissile rnd r 0 st = Inr st"
| "missilesLoop psd radars interceptors selectedMissile rnd r (Suc m) st =
     (case runTrial psd radars interceptors selectedMissile rnd r st of
        Inl e \<Rightarrow> Inl e
      | Inr st' \<Rightarrow> missilesLoop psd radars interceptors selectedMissile rnd r m st')"

text \<open>\<open>for (let r = 0; r < rounds; r++)\<close>: round \<open>r\<close>, with the number of rounds left.\<close>

fun roundsLoop ::
  "segmentDistance \<Rightarrow> DefenseSystem list \<Rightarrow> DefenseSystem list \<Rightarrow> MissileType \<Rightarrow> draws \<Rightarrow>
   nat \<Rightarrow> nat \<Rightarrow> nat \<Rightarrow> BatchState \<Rightarrow> error + BatchState" where
  "roundsLoop psd radars interceptors selectedMissile rnd missilesPerRound r 0 st = Inr st"
| "roundsLoop psd radars interceptors selectedMissile rnd missilesPerRound r (Suc left) st =
     (case missilesLoop psd radars interceptors selectedMissile rnd r missilesPerRound st of
        Inl e \<Rightarrow> Inl e
      | Inr st' \<Rightarrow>
          roundsLoop psd radars interceptors selectedMissile rnd missilesPerRound (r + 1) left st')"

text \<open>
  \<open>rounds\<close> and \<open>missilesPerRound\<close> come from range inputs (1 to 1000, 1 to 100):
  natural numbers. \<open>detectedCount / totalLaunched\<close> is NaN when nothing was launched:
  no rate. The wall-clock \<open>timeTaken\<close> is left out.
\<close>

definition runBatchTest ::
  "segmentDistance \<Rightarrow> DefenseSystem list \<Rightarrow> nat \<Rightarrow> nat \<Rightarrow> MissileType \<Rightarrow> draws \<Rightarrow>
   error + BatchResults" where
  "runBatchTest pointToSegmentDistance systems rounds missilesPerRound selectedMissile rnd =
     (case roundsLoop pointToSegmentDistance (activeRadars systems) (activeInterceptors systems)
             selectedMissile rnd missilesPerRound 0 rounds
             \<lparr> totalLaunched = 0, interceptedCount = 0, impactedCount = 0, detectedCount = 0,
               batchLogs = [], drawn = 0 \<rparr> of
        Inl e \<Rightarrow> Inl e
      | Inr st \<Rightarrow>
          Inr \<lparr> results_totalLaunched = totalLaunched st,
                results_intercepted = interceptedCount st,
                results_impacted = impactedCount st,
                detectionRate =
                  (if totalLaunched st = 0 then None
                   else Some ((real (detectedCount st) / real (totalLaunched st)) * 100)),
                logs = take 20 (batchLogs st) \<rparr>)"

subsection \<open>Relations between the threats before and after\<close>

text \<open>
  \<open>sticky\<close>: a binding that is set stays what it is. \<open>settled\<close>: a threat that is
  not MOVING stays what it is. \<open>keeps R\<close>: every threat of the earlier list is still
  there, at its index, related by \<open>R\<close> to what it was. \<open>counted\<close>: the counters add up.
\<close>

definition sticky :: "Threat \<Rightarrow> Threat \<Rightarrow> bool" where
  "sticky t t' = (truthy_id (interceptorId t) \<longrightarrow> interceptorId t' = interceptorId t)"

definition settled :: "Threat \<Rightarrow> Threat \<Rightarrow> bool" where
  "settled t t' = (status t \<noteq> MOVING \<longrightarrow> t' = t)"

definition balance :: "Threat list \<Rightarrow> Stats \<Rightarrow> nat" where
  "balance ts st = intercepted st + impacted st + movingCount ts"

definition keeps :: "(Threat \<Rightarrow> Threat \<Rightarrow> bool) \<Rightarrow> Threat list \<Rightarrow> Threat list \<Rightarrow> bool" where
  "keeps R ts ts' = (length ts \<le> length ts' \<and> (\<forall>i < length ts. R (ts ! i) (ts' ! i)))"

definition counted :: "SimState \<Rightarrow> bool" where
  "counted s =
     (launched (stats s) = intercepted (stats s) + impacted (stats s) + movingCount (threats s))"

subsection \<open>What the mutation and the independence theorems speak about\<close>

text \<open>
  \<open>moved s s'\<close>: the unit is returned as it was, or only its position changed and the new
  position lies in the bounding box. \<open>boundToActive systems th\<close>: a threat that is bound
  is bound to an active unit of \<open>systems\<close>.
\<close>

definition moved :: "DefenseSystem \<Rightarrow> DefenseSystem \<Rightarrow> bool" where
  "moved s s' = (s' = s \<or> (inBounds s' \<and> s' = s \<lparr> sys_lat := sys_lat s', sys_lng := sys_lng s' \<rparr>))"

definition boundToActive :: "DefenseSystem list \<Rightarrow> Threat \<Rightarrow> bool" where
  "boundToActive systems th =
     (truthy_id (interceptorId th) \<longrightarrow>
        (\<exists>x \<in> set systems. is_active x \<and> interceptorId th = Some (sys_id x)))"

subsection \<open>Concrete threats and interceptors\<close>

text \<open>
  A ballistic threat at 1.5 times the base scale (speed 0.005 * 4 * 1.5) flying due east
  along latitude 7, a Barak-8 battery one degree ahead of it on its path, and a unit of the
  Custom template (shot speed 0) at the same place.
\<close>

definition demoThreat :: Threat where
  "demoThreat = \<lparr> threat_id = ''t1'', start = latLng 7 80, target = latLng 7 81,
                   current = latLng 7 80, startTime = 0, status = MOVING, speed = 0.03,
                   threatType = ''ballistic'', interceptorId = None, interceptorPos = None,
                   predictedInterceptPoint = None, detectedByRadarId = None \<rparr>"

definition barak :: DefenseSystem where
  "barak = \<lparr> sys_id = ''b1'', sys_lat = 7, sys_lng = 81, sys_range = 150,
             sys_name = ''Barak-8-1'', role = INTERCEPTOR, shotSpeed = 0.25, isActive = Some True \<rparr>"

definition custom :: DefenseSystem where
  "custom = \<lparr> sys_id = ''c1'', sys_lat = 7, sys_lng = 81, sys_range = 150,
              sys_name = ''Custom-1'', role = INTERCEPTOR, shotSpeed = 0, isActive = Some True \<rparr>"

text \<open>
  A YLC-18 radar and an ODIN unit at the same place; a threat near its target that the
  Barak-8 battery is bound to; a threat farther out; a state holding it; a short run.
\<close>

definition radarEast :: DefenseSystem where
  "radarEast = \<lparr> sys_id = ''r2'', sys_lat = 7, sys_lng = 81, sys_range = 250,
                 sys_name = ''YLC-18-1'', role = RADAR, shotSpeed = 0, isActive = Some True \<rparr>"

definition odin :: DefenseSystem where
  "odin = \<lparr> sys_id = ''o1'', sys_lat = 7, sys_lng = 81, sys_range = 20,
            sys_name = ''ODIN-1'', role = INTERCEPTOR, shotSpeed = 2.0, isActive = Some True \<rparr>"

definition nearThreat :: Threat where
  "nearThreat = demoThreat \<lparr> current := latLng 7 80.999, interceptorId := Some ''b1'',
                   interceptorPos := Some (latLng 7 81),
                   predictedInterceptPoint := Some (latLng 7 80.9995) \<rparr>"

definition boundThreat :: Threat where
  "boundThreat = demoThreat \<lparr> current := latLng 7 80.9, interceptorId := Some ''b1'',
                   interceptorPos := Some (latLng 7 81),
                   predictedInterceptPoint := Some (latLng 7 80.91) \<rparr>"

definition engagedState :: SimState where
  "engagedState = \<lparr> threats = [boundThreat],
                     stats = \<lparr> launched = 1, intercepted = 0, impacted = 0 \<rparr>,
                     lastUpdate = 1000 \<rparr>"

definition cruise :: MissileType where
  "cruise = \<lparr> missile_id = ''cruise'', missile_label = ''Cruise Missile'', speedMod = 1.5 \<rparr>"

definition twoLaunches :: "event list" where
  "twoLaunches =
     [Activate 1000,
      Launch ''a'' 0 cruise 1 (latLng 7 80) (latLng 7 81),
      Launch ''b'' 0 cruise 1 (latLng 7 81) (latLng 7 81),
      Tick [] 1 1100]"

text \<open>
  The Barak-8 battery and the ODIN unit switched off, and a threat the battery was bound to
  before.
\<close>

definition chasedThreat :: Threat where
  "chasedThreat = demoThreat \<lparr> current := latLng 7 80.96, interceptorId := Some ''b1'',
                    interceptorPos := Some (latLng 7 81),
                    predictedInterceptPoint := Some (latLng 7 80.965) \<rparr>"

definition barakOff :: DefenseSystem where
  "barakOff = barak \<lparr> isActive := Some False \<rparr>"

definition odinOff :: DefenseSystem where
  "odinOff = odin \<lparr> isActive := Some False \<rparr>"

section \<open>Point in region\<close>

lemma multiPolygon_loop_parity:
  "multiPolygon_loop x y polys inside =
     (if list_all (\<lambda>poly. poly \<noteq> []) polys
      then Inr (inside \<noteq> ringParity x y (concat (map (take 1) polys)))
      else Inl TypeError)"
proof (induction polys arbitrary: inside)
  case Nil
  show ?case by (simp add: ringParity_def)
next
  case (Cons poly polys)
  show ?case
  proof (cases poly)
    case Nil
    then show ?thesis by (simp add: firstRing_def)
  next
    case (Cons r rs)
    then show ?thesis
      using Cons.IH by (auto simp: firstRing_def ringParity_def)
  qed
qed

lemma ringParity_append:
  "ringParity x y (rs @ rs') = (ringParity x y rs \<noteq> ringParity x y rs')"
  by (auto simp: ringParity_def)

lemma features_loop_parity:
  "features_loop x y features inside =
     (if list_all hasRings features
      then Inr (inside \<noteq> ringParity x y (concat (map testedRings features)))
      else Inl TypeError)"
proof (induction x y features inside rule: features_loop.induct)
  case (1 x y inside)
  show ?case by (simp add: ringParity_def)
next
  case (2 x y coordinates rest inside)
  show ?case
  proof (cases coordinates)
    case Nil
    then show ?thesis by (simp add: firstRing_def)
  next
    case (Cons r rs)
    then show ?thesis
      using 2 by (auto simp: firstRing_def ringParity_def)
  qed
next
  case (3 x y coordinates rest inside)
  show ?case
  proof (cases "list_all (\<lambda>poly. poly \<noteq> []) coordinates")
    case False
    then show ?thesis by (simp add: multiPolygon_loop_parity)
  next
    case True
    then show ?thesis
      using 3 by (auto simp: multiPolygon_loop_parity ringParity_append)
  qed
next
  case (4 x y rest inside)
  then show ?case by simp
qed

text \<open>
  C1 (as amended). With region data present, \<open>isInsideCountry\<close> toggles once for the
  first ring of every Polygon and of every polygon of a MultiPolygon that contains the
  point under \<open>checkPolygon\<close>; the later rings of a polygon (its holes) are never tested.
  It throws when a polygon has no ring at all, and answers true when the region data is absent.
\<close>

theorem isInsideCountry_first_ring_parity:
  "isInsideCountry plat plng None = Inr True \<and>
   isInsideCountry plat plng (Some features) =
     (if list_all hasRings features
      then Inr (ringParity plng plat (concat (map testedRings features)))
      else Inl TypeError)"
  by (simp add: isInsideCountry_def features_loop_parity)

text \<open>
  A square from (0,0) to (10,10) with a square hole from (4,4) to (6,6): the point (5,5)
  lies in both rings, and only the outer ring is tested.
\<close>

theorem isInsideCountry_first_ring_parity_witness:
  "isInsideCountry 5 5 (Some [Polygon [[(0,0),(10,0),(10,10),(0,10)], [(4,4),(6,4),(6,6),(4,6)]]])
     = Inr True \<and>
   isInsideCountry 2 2 (Some [Polygon [[(0,0),(10,0),(10,10),(0,10)], [(4,4),(6,4),(6,6),(4,6)]]])
     = Inr True \<and>
   isInsideCountry 5 5 (Some [MultiPolygon [[[(0,0),(10,0),(10,10),(0,10)]], [[(4,4),(6,4),(6,6),(4,6)]]]])
     = Inr False \<and>
   isInsideCountry 5 5 (Some [Polygon []]) = Inl TypeError"
  using isInsideCountry_first_ring_parity
          [of 5 5 "[Polygon [[(0,0),(10,0),(10,10),(0,10)], [(4,4),(6,4),(6,6),(4,6)]]]"]
        isInsideCountry_first_ring_parity
          [of 2 2 "[Polygon [[(0,0),(10,0),(10,10),(0,10)], [(4,4),(6,4),(6,6),(4,6)]]]"]
        isInsideCountry_first_ring_parity
          [of 5 5 "[MultiPolygon [[[(0,0),(10,0),(10,10),(0,10)]], [[(4,4),(6,4),(6,6),(4,6)]]]]"]
        isInsideCountry_first_ring_parity [of 5 5 "[Polygon []]"]
  by (simp add: ringParity_def checkPolygon_def)

text \<open>
  C1 as stated fails: the point (5,5) is inside the outer ring and inside the hole ring of
  one Polygon, the toggle across every ring says outside, and the code answers inside.
\<close>

theorem isInsideCountry_hole_counterexample:
  "checkPolygon 5 5 [(0,0),(10,0),(10,10),(0,10)] \<and>
   checkPolygon 5 5 [(4,4),(6,4),(6,6),(4,6)] \<and>
   \<not> spec_insideRegion 5 5 [Polygon [[(0,0),(10,0),(10,10),(0,10)], [(4,4),(6,4),(6,6),(4,6)]]] \<and>
   isInsideCountry 5 5 (Some [Polygon [[(0,0),(10,0),(10,10),(0,10)], [(4,4),(6,4),(6,6),(4,6)]]])
     = Inr True"
  by (simp add: isInsideCountry_def firstRing_def spec_insideRegion_def ringParity_def
        checkPolygon_def)
section \<open>Coverage scoring\<close>

subsection \<open>The tally in closed form\<close>

lemma hitsAtPoint_pos: "(hitsAtPoint d p ss > 0) = list_ex (inRange d p) ss"
  by (induction ss) auto

lemma gridSize_eq: "gridSize = 60"
proof -
  have "sqrt 3600 = 60" by (rule real_sqrt_unique) auto
  then show ?thesis by (simp add: gridSize_def SAMPLING_POINTS_COUNT_def)
qed

lemma gridPoints_nonempty: "gridPoints \<noteq> []"
  by (simp add: gridPoints_def gridSize_eq upt_rec)

lemma length_gridPoints: "length gridPoints = 3600"
  by (simp add: gridPoints_def gridSize_eq length_concat comp_def sum_list_triv)

lemma grid_point_bounds:
  assumes "p \<in> set gridPoints"
  shows "5.8 < lat p \<and> lat p < 9.9 \<and> 79.5 < lng p \<and> lng p < 82"
proof -
  from assms obtain i j where ij: "i < 60" "j < 60" "p = samplePoint i j"
    by (auto simp: gridPoints_def gridSize_eq)
  have "real i \<le> 59" "real j \<le> 59" using ij by auto
  then show ?thesis
    using ij by (simp add: samplePoint_def latStep_def lngStep_def SL_BOUNDS_def gridSize_eq)
qed

lemma isInsideCountry_wellformed:
  "isInsideCountry a b (Some fs) =
     (if list_all hasRings fs then Inr (ringParity b a (concat (map testedRings fs)))
      else Inl TypeError)"
  by (simp add: isInsideCountry_def features_loop_parity)

lemma scorePoints_counts:
  "scorePoints d rs ics geo pts t = Inr t' \<Longrightarrow>
     landPointsTotal t' = landPointsTotal t + length (filter (isLandPoint geo) pts) \<and>
     seaPointsTotal t' = seaPointsTotal t + length (filter (\<lambda>p. \<not> isLandPoint geo p) pts) \<and>
     radarLandHitsCount t' = radarLandHitsCount t +
        length (filter (\<lambda>p. isLandPoint geo p \<and> list_ex (inRange d p) rs) pts) \<and>
     attackLandHitsCount t' = attackLandHitsCount t +
        length (filter (\<lambda>p. isLandPoint geo p \<and> list_ex (inRange d p) ics) pts) \<and>
     spatialLandCoveredCount t' = spatialLandCoveredCount t +
        length (filter (\<lambda>p. isLandPoint geo p \<and> list_ex (inRange d p) rs \<and> list_ex (inRange d p) ics) pts) \<and>
     combinedSeaHits t' = combinedSeaHits t +
        length (filter (\<lambda>p. \<not> isLandPoint geo p \<and> list_ex (inRange d p) rs \<and> list_ex (inRange d p) ics) pts)"
proof (induction pts arbitrary: t)
  case Nil
  then show ?case by simp
next
  case (Cons p pts)
  from Cons.prems obtain b where b: "isInsideCountry (lat p) (lng p) geo = Inr b"
    and rest: "scorePoints d rs ics geo pts (countPoint d rs ics b p t) = Inr t'"
    by (auto split: sum.splits)
  have land: "isLandPoint geo p = b" using b by (simp add: isLandPoint_def)
  show ?case
    using Cons.IH[OF rest] land
    by (cases b) (simp_all add: countPoint_def Let_def hitsAtPoint_pos)
qed

lemma scorePoints_total:
  "(\<forall>p \<in> set pts. \<exists>b. isInsideCountry (lat p) (lng p) geo = Inr b) \<Longrightarrow>
   \<exists>t'. scorePoints d rs ics geo pts t = Inr t'"
  by (induction pts arbitrary: t) auto

lemma scorePoints_error:
  "pts \<noteq> [] \<Longrightarrow> (\<forall>p \<in> set pts. isInsideCountry (lat p) (lng p) geo = Inl e) \<Longrightarrow>
   scorePoints d rs ics geo pts t = Inl e"
  by (cases pts) auto

lemma gridTally_Some:
  "gridTally d systems (Some fs) =
     (if list_all hasRings fs
      then Inr \<lparr> spatialLandCoveredCount =
                   length (filter (\<lambda>p. isLandPoint (Some fs) p \<and> radarCovered d systems p \<and>
                                        interceptorCovered d systems p) gridPoints),
                 radarLandHitsCount =
                   length (filter (\<lambda>p. isLandPoint (Some fs) p \<and> radarCovered d systems p) gridPoints),
                 attackLandHitsCount =
                   length (filter (\<lambda>p. isLandPoint (Some fs) p \<and> interceptorCovered d systems p) gridPoints),
                 landPointsTotal = length (filter (isLandPoint (Some fs)) gridPoints),
                 seaPointsTotal = length (filter (\<lambda>p. \<not> isLandPoint (Some fs) p) gridPoints),
                 combinedSeaHits =
                   length (filter (\<lambda>p. \<not> isLandPoint (Some fs) p \<and> radarCovered d systems p \<and>
                                        interceptorCovered d systems p) gridPoints) \<rparr>
      else Inl TypeError)"
proof (cases "list_all hasRings fs")
  case False
  then have "\<forall>p \<in> set gridPoints. isInsideCountry (lat p) (lng p) (Some fs) = Inl TypeError"
    by (simp add: isInsideCountry_wellformed)
  then show ?thesis
    using False scorePoints_error[OF gridPoints_nonempty] by (simp add: gridTally_def)
next
  case True
  then have "\<forall>p \<in> set gridPoints. \<exists>b. isInsideCountry (lat p) (lng p) (Some fs) = Inr b"
    by (simp add: isInsideCountry_wellformed)
  then obtain t' where t': "scorePoints d (activeRadars systems) (activeInterceptors systems)
      (Some fs) gridPoints tally0 = Inr t'"
    using scorePoints_total by blast
  from scorePoints_counts[OF t'] have "t' = \<lparr> spatialLandCoveredCount =
                   length (filter (\<lambda>p. isLandPoint (Some fs) p \<and> radarCovered d systems p \<and>
                                        interceptorCovered d systems p) gridPoints),
                 radarLandHitsCount =
                   length (filter (\<lambda>p. isLandPoint (Some fs) p \<and> radarCovered d systems p) gridPoints),
                 attackLandHitsCount =
                   length (filter (\<lambda>p. isLandPoint (Some fs) p \<and> interceptorCovered d systems p) gridPoints),
                 landPointsTotal = length (filter (isLandPoint (Some fs)) gridPoints),
                 seaPointsTotal = length (filter (\<lambda>p. \<not> isLandPoint (Some fs) p) gridPoints),
                 combinedSeaHits =
                   length (filter (\<lambda>p. \<not> isLandPoint (Some fs) p \<and> radarCovered d systems p \<and>
                                        interceptorCovered d systems p) gridPoints) \<rparr>"
    by (simp add: tally0_def radarCovered_def interceptorCovered_def)
  then show ?thesis using True t' by (simp add: gridTally_def)
qed

lemma calculateScores_Some:
  "calculateScores d systems (Some fs) =
     (if list_all hasRings fs
      then Inr \<lparr> combinedLand =
                   percentage
                     (countWhere (\<lambda>p. isLandPoint (Some fs) p \<and> radarCovered d systems p \<and>
                                       interceptorCovered d systems p) gridPoints)
                     (countWhere (isLandPoint (Some fs)) gridPoints),
                 combinedCities = percentage (fst (cityTotals d systems)) (snd (cityTotals d systems)),
                 combinedSea =
                   percentage
                     (countWhere (\<lambda>p. \<not> isLandPoint (Some fs) p \<and> radarCovered d systems p \<and>
                                       interceptorCovered d systems p) gridPoints)
                     (countWhere (\<lambda>p. \<not> isLandPoint (Some fs) p) gridPoints),
                 radarLand =
                   percentage
                     (countWhere (\<lambda>p. isLandPoint (Some fs) p \<and> radarCovered d systems p) gridPoints)
                     (countWhere (isLandPoint (Some fs)) gridPoints),
                 attackLand =
                   percentage
                     (countWhere (\<lambda>p. isLandPoint (Some fs) p \<and> interceptorCovered d systems p) gridPoints)
                     (countWhere (isLandPoint (Some fs)) gridPoints) \<rparr>
      else Inl TypeError)"
  by (simp add: calculateScores_def gridTally_Some countWhere_def Let_def)

lemma percentage_bounds:
  "0 \<le> c \<Longrightarrow> c \<le> t \<Longrightarrow> 0 \<le> percentage c t \<and> percentage c t \<le> 100"
  by (auto simp: percentage_def divide_le_eq)

lemma percentage_zero_total: "t = 0 \<Longrightarrow> percentage c t = 0"
  by (simp add: percentage_def)

lemma countWhere_bounds:
  "0 \<le> countWhere (\<lambda>p. P p \<and> Q p) xs \<and> countWhere (\<lambda>p. P p \<and> Q p) xs \<le> countWhere P xs"
proof -
  have "length (filter (\<lambda>p. P p \<and> Q p) xs) \<le> length (filter P xs)"
    by (induction xs) auto
  then show ?thesis by (simp add: countWhere_def)
qed

lemma countWhere_all: "(\<forall>p \<in> set xs. P p) \<Longrightarrow> countWhere P xs = real (length xs)"
  by (simp add: countWhere_def)

lemma countWhere_none: "(\<forall>p \<in> set xs. \<not> P p) \<Longrightarrow> countWhere P xs = 0"
  by (simp add: countWhere_def)

lemma countWhere_filter_Nil: "filter P xs = [] \<Longrightarrow> countWhere P xs = 0"
  by (simp add: countWhere_def)

lemma cityScores_bounds:
  "list_all (\<lambda>c. 0 \<le> weight c) cs \<Longrightarrow> 0 \<le> a \<Longrightarrow> a \<le> b \<Longrightarrow>
   0 \<le> fst (cityScores d rs ics cs (a, b)) \<and>
   fst (cityScores d rs ics cs (a, b)) \<le> snd (cityScores d rs ics cs (a, b))"
proof (induction cs arbitrary: a b)
  case Nil
  then show ?case by simp
next
  case (Cons c cs)
  have w: "0 \<le> weight c" and rest: "list_all (\<lambda>c. 0 \<le> weight c) cs"
    using Cons.prems(1) by simp_all
  have covered: "0 \<le> a + weight c" "a + weight c \<le> b + weight c"
    and uncovered: "a \<le> b + weight c"
    using Cons.prems w by simp_all
  show ?case
    using Cons.IH[OF rest covered] Cons.IH[OF rest Cons.prems(2) uncovered]
    by (simp add: Let_def)
qed

lemma cityTotals_bounds:
  "0 \<le> fst (cityTotals d systems) \<and> fst (cityTotals d systems) \<le> snd (cityTotals d systems)"
  unfolding cityTotals_def
  by (rule cityScores_bounds) (simp_all add: CITIES_def)

subsection \<open>The concrete deployment\<close>

lemma checkPolygon_demo:
  "0 < y \<Longrightarrow> y < 20 \<Longrightarrow> 70 < x \<Longrightarrow> x < 90 \<Longrightarrow>
   checkPolygon x y [(70, 0), (90, 0), (90, 20), (70, 20)]"
  by (simp add: checkPolygon_def)

lemma demo_all_land: "p \<in> set gridPoints \<Longrightarrow> isLandPoint (Some demoRegion) p"
  using grid_point_bounds[of p]
  by (simp add: isLandPoint_def isInsideCountry_def demoRegion_def firstRing_def checkPolygon_demo)

lemma planarDistance_le:
  "planarDistance a b \<le> 111000 * (\<bar>lat a - lat b\<bar> + \<bar>lng a - lng b\<bar>)"
  using sqrt_sum_squares_le_sum_abs[of "lat a - lat b" "lng a - lng b"]
  by (simp add: planarDistance_def)

lemma box_in_range:
  assumes "5.8 \<le> lat p" "lat p \<le> 9.9" "79.5 \<le> lng p" "lng p \<le> 82"
    and "sys_lat s = 157 / 20" "sys_lng s = 323 / 4" "400 \<le> sys_range s"
  shows "inRange planarDistance p s"
proof -
  have "sys_pos s = latLng (157 / 20) (323 / 4)"
    by (simp only: sys_pos_def assms)
  then have "planarDistance p (sys_pos s) \<le>
      111000 * (\<bar>lat p - 157 / 20\<bar> + \<bar>lng p - 323 / 4\<bar>)"
    using planarDistance_le[of p "latLng (157 / 20) (323 / 4)"] by (simp only: LatLng.sel)
  moreover have "\<bar>lat p - 157 / 20\<bar> + \<bar>lng p - 323 / 4\<bar> \<le> 7 / 2"
    using assms(1-4) by (simp add: abs_if)
  then have "111000 * (\<bar>lat p - 157 / 20\<bar> + \<bar>lng p - 323 / 4\<bar>) \<le> 400000"
    by simp
  ultimately have "planarDistance p (sys_pos s) \<le> 400000"
    by (rule order_trans)
  then show ?thesis using assms(7) by (simp add: inRange_def)
qed

lemma demo_in_range:
  assumes "p \<in> set gridPoints" "sys_lat s = 157 / 20" "sys_lng s = 323 / 4" "400 \<le> sys_range s"
  shows "inRange planarDistance p s"
  using grid_point_bounds[OF assms(1)] assms(2-4) by (intro box_in_range) simp_all

lemma demo_radar_covered:
  "p \<in> set gridPoints \<Longrightarrow> radarCovered planarDistance [demoRadar, demoInterceptor] p"
  by (simp add: radarCovered_def activeRadars_def demoRadar_def demoInterceptor_def demo_in_range)

lemma demo_interceptor_covered:
  "p \<in> set gridPoints \<Longrightarrow> interceptorCovered planarDistance [demoRadar, demoInterceptor] p"
  by (simp add: interceptorCovered_def activeInterceptors_def demoRadar_def demoInterceptor_def
        demo_in_range)

lemma demo_spec:
  "spec_radarOnlyLand planarDistance [demoRadar, demoInterceptor] (Some demoRegion) = 0 \<and>
   spec_interceptorOnlyLand planarDistance [demoRadar, demoInterceptor] (Some demoRegion) = 0"
  by (simp add: spec_radarOnlyLand_def spec_interceptorOnlyLand_def countWhere_all countWhere_none
       demo_all_land demo_radar_covered demo_interceptor_covered length_gridPoints percentage_def)

lemma demo_cityTotals: "cityTotals planarDistance [demoRadar, demoInterceptor] = (25.7, 25.7)"
  by (simp add: cityTotals_def CITIES_def activeRadars_def activeInterceptors_def
        demoRadar_def demoInterceptor_def Let_def box_in_range)

lemma demo_calculateScores:
  "calculateScores planarDistance [demoRadar, demoInterceptor] (Some demoRegion) =
     Inr \<lparr> combinedLand = 100, combinedCities = 100, combinedSea = 0, radarLand = 100,
           attackLand = 100 \<rparr>"
proof -
  have wf: "list_all hasRings demoRegion" by (simp add: demoRegion_def)
  show ?thesis
    by (simp add: calculateScores_Some wf countWhere_all countWhere_none
       demo_all_land demo_radar_covered demo_interceptor_covered length_gridPoints percentage_def
       demo_cityTotals)
qed

lemma empty_calculateScores:
  "calculateScores d [] (Some []) =
     Inr \<lparr> combinedLand = 0, combinedCities = 0, combinedSea = 0, radarLand = 0,
           attackLand = 0 \<rparr>"
  by (simp add: calculateScores_Some countWhere_none radarCovered_def activeRadars_def
        interceptorCovered_def activeInterceptors_def isLandPoint_def isInsideCountry_def
        cityTotals_def CITIES_def Let_def percentage_def)

lemma empty_gridTally:
  "gridTally d [] (Some []) = Inr (tally0 \<lparr> seaPointsTotal := 3600 \<rparr>)"
  by (simp add: gridTally_Some isLandPoint_def isInsideCountry_def radarCovered_def
        activeRadars_def tally0_def length_gridPoints)

lemma malformed_calculateScores: "calculateScores d systems (Some [Polygon []]) = Inl TypeError"
  by (simp add: calculateScores_Some)

subsection \<open>What the land metrics count\<close>

text \<open>
  C6 (as amended). Over the land sample points the engine counts the points with combined
  coverage, the points covered by some active radar and the points covered by some active
  interceptor, each whether or not the other kind covers the point too. The radar-land
  metric is the percentage of land points covered by a radar, the interceptor-land metric
  the percentage covered by an interceptor.
\<close>

theorem calculateScores_land_metrics:
  "list_all hasRings fs \<Longrightarrow>
   (\<exists>t r. gridTally d systems (Some fs) = Inr t \<and> calculateScores d systems (Some fs) = Inr r \<and>
      spatialLandCoveredCount t =
        length (filter (\<lambda>p. isLandPoint (Some fs) p \<and> radarCovered d systems p \<and>
                             interceptorCovered d systems p) gridPoints) \<and>
      radarLandHitsCount t =
        length (filter (\<lambda>p. isLandPoint (Some fs) p \<and> radarCovered d systems p) gridPoints) \<and>
      attackLandHitsCount t =
        length (filter (\<lambda>p. isLandPoint (Some fs) p \<and> interceptorCovered d systems p) gridPoints) \<and>
      radarLand r =
        percentage
          (countWhere (\<lambda>p. isLandPoint (Some fs) p \<and> radarCovered d systems p) gridPoints)
          (countWhere (isLandPoint (Some fs)) gridPoints) \<and>
      attackLand r =
        percentage
          (countWhere (\<lambda>p. isLandPoint (Some fs) p \<and> interceptorCovered d systems p) gridPoints)
          (countWhere (isLandPoint (Some fs)) gridPoints))"
  by (simp add: calculateScores_Some gridTally_Some)

theorem calculateScores_land_metrics_witness:
  "list_all hasRings demoRegion \<and>
   (\<exists>t r. gridTally planarDistance [demoRadar, demoInterceptor] (Some demoRegion) = Inr t \<and>
      calculateScores planarDistance [demoRadar, demoInterceptor] (Some demoRegion) = Inr r \<and>
      radarLandHitsCount t = 3600 \<and> attackLandHitsCount t = 3600 \<and>
      radarLand r = 100 \<and> attackLand r = 100)"
proof -
  have wf: "list_all hasRings demoRegion" by (simp add: demoRegion_def)
  have land: "filter (isLandPoint (Some demoRegion)) gridPoints = gridPoints"
    by (simp add: demo_all_land)
  have rl: "filter (\<lambda>p. isLandPoint (Some demoRegion) p \<and>
              radarCovered planarDistance [demoRadar, demoInterceptor] p) gridPoints = gridPoints"
    by (simp add: demo_all_land demo_radar_covered)
  have il: "filter (\<lambda>p. isLandPoint (Some demoRegion) p \<and>
              interceptorCovered planarDistance [demoRadar, demoInterceptor] p) gridPoints = gridPoints"
    by (simp add: demo_all_land demo_interceptor_covered)
  show ?thesis
    using calculateScores_land_metrics
            [OF wf, where d = planarDistance and systems = "[demoRadar, demoInterceptor]"]
    by (auto simp: wf land rl il countWhere_def length_gridPoints percentage_def)
qed

text \<open>
  C6 as stated fails: with a radar and an interceptor that both reach every land point, no
  land point is covered by a radar but not by an interceptor (nor the other way round), and
  the code reports 100 for both metrics.
\<close>

theorem calculateScores_radar_only_counterexample:
  "calculateScores planarDistance [demoRadar, demoInterceptor] (Some demoRegion) =
     Inr \<lparr> combinedLand = 100, combinedCities = 100, combinedSea = 0, radarLand = 100,
           attackLand = 100 \<rparr> \<and>
   spec_radarOnlyLand planarDistance [demoRadar, demoInterceptor] (Some demoRegion) = 0 \<and>
   spec_interceptorOnlyLand planarDistance [demoRadar, demoInterceptor] (Some demoRegion) = 0"
  using demo_calculateScores demo_spec by simp

subsection \<open>Percentages\<close>

text \<open>
  C7. Whenever \<open>calculateScores\<close> returns, every percentage lies in [0,100], and a
  percentage is 0 when its denominator (land points, sea points, city weight) is 0. It
  returns for every unit list and every region; the one exception is a region with a polygon
  that has no ring, where the point test throws a TypeError, which is no division.
\<close>

theorem calculateScores_percentages_bounded:
  "(case calculateScores d systems geoData of
      Inl e \<Rightarrow> e = TypeError \<and> (\<exists>fs. geoData = Some fs \<and> \<not> list_all hasRings fs)
    | Inr r \<Rightarrow>
        (0 \<le> combinedLand r \<and> combinedLand r \<le> 100) \<and>
        (0 \<le> combinedCities r \<and> combinedCities r \<le> 100) \<and>
        (0 \<le> combinedSea r \<and> combinedSea r \<le> 100) \<and>
        (0 \<le> radarLand r \<and> radarLand r \<le> 100) \<and>
        (0 \<le> attackLand r \<and> attackLand r \<le> 100) \<and>
        (\<forall>t. gridTally d systems geoData = Inr t \<longrightarrow>
           (landPointsTotal t = 0 \<longrightarrow> combinedLand r = 0 \<and> radarLand r = 0 \<and> attackLand r = 0) \<and>
           (seaPointsTotal t = 0 \<longrightarrow> combinedSea r = 0)) \<and>
        (snd (cityTotals d systems) = 0 \<longrightarrow> combinedCities r = 0))"
proof (cases geoData)
  case None
  then show ?thesis by (simp add: calculateScores_def)
next
  case (Some fs)
  show ?thesis
  proof (cases "list_all hasRings fs")
    case False
    then show ?thesis using Some by (simp add: calculateScores_Some)
  next
    case True
    have b1: "0 \<le> percentage (countWhere (\<lambda>p. P p \<and> Q p) gridPoints) (countWhere P gridPoints)
        \<and> percentage (countWhere (\<lambda>p. P p \<and> Q p) gridPoints) (countWhere P gridPoints) \<le> 100"
      for P Q :: "LatLng \<Rightarrow> bool"
      using countWhere_bounds[of P Q gridPoints] by (intro percentage_bounds) auto
    have b2: "0 \<le> percentage (countWhere (\<lambda>p. P p \<and> Q p \<and> R p) gridPoints) (countWhere P gridPoints)
        \<and> percentage (countWhere (\<lambda>p. P p \<and> Q p \<and> R p) gridPoints) (countWhere P gridPoints) \<le> 100"
      for P Q R :: "LatLng \<Rightarrow> bool"
      using b1[of P "\<lambda>p. Q p \<and> R p"] by simp
    have b3: "0 \<le> percentage (fst (cityTotals d systems)) (snd (cityTotals d systems)) \<and>
       percentage (fst (cityTotals d systems)) (snd (cityTotals d systems)) \<le> 100"
      using cityTotals_bounds by (intro percentage_bounds) auto
    show ?thesis
      using Some True b1 b2 b3
      by (auto simp: calculateScores_Some gridTally_Some countWhere_def[symmetric]
            countWhere_filter_Nil percentage_zero_total)
  qed
qed

theorem calculateScores_percentages_bounded_witness:
  "calculateScores planarDistance [] (Some []) =
     Inr \<lparr> combinedLand = 0, combinedCities = 0, combinedSea = 0, radarLand = 0,
           attackLand = 0 \<rparr> \<and>
   gridTally planarDistance [] (Some []) = Inr (tally0 \<lparr> seaPointsTotal := 3600 \<rparr>) \<and>
   landPointsTotal (tally0 \<lparr> seaPointsTotal := 3600 \<rparr>) = 0 \<and>
   calculateScores planarDistance [] (Some [Polygon []]) = Inl TypeError \<and>
   (\<exists>r. calculateScores planarDistance [demoRadar, demoInterceptor] (Some demoRegion) = Inr r \<and>
        0 \<le> combinedCities r \<and> combinedCities r \<le> 100 \<and> 0 \<le> combinedSea r \<and>
        combinedSea r \<le> 100)"
  using calculateScores_percentages_bounded
          [where d = planarDistance and systems = "[]" and geoData = "Some []"]
        calculateScores_percentages_bounded
          [where d = planarDistance and systems = "[]" and geoData = "Some [Polygon []]"]
        calculateScores_percentages_bounded
          [where d = planarDistance and systems = "[demoRadar, demoInterceptor]"
             and geoData = "Some demoRegion"]
  by (simp add: empty_calculateScores empty_gridTally tally0_def malformed_calculateScores
        demo_calculateScores)

section \<open>Intercept prediction\<close>

subsection \<open>Roots of a quadratic\<close>

lemma complete_square:
  fixes a b c t :: real
  shows "4 * a * (a * t\<^sup>2 + b * t + c) = (2 * a * t + b)\<^sup>2 - (b * b - 4 * a * c)"
  by (simp add: power2_eq_square algebra_simps)

lemma quadratic_roots:
  fixes a b c t :: real
  assumes a: "a \<noteq> 0" and root: "a * t\<^sup>2 + b * t + c = 0"
  shows "0 \<le> b * b - 4 * a * c \<and>
         (t = (- b - sqrt (b * b - 4 * a * c)) / (2 * a) \<or>
          t = (- b + sqrt (b * b - 4 * a * c)) / (2 * a))"
proof -
  let ?d = "b * b - 4 * a * c"
  have sq: "(2 * a * t + b)\<^sup>2 = ?d"
  proof -
    have "(2 * a * t + b)\<^sup>2 = 4 * a * (a * t\<^sup>2 + b * t + c) + ?d"
      by (simp add: power2_eq_square algebra_simps)
    then show ?thesis using root by simp
  qed
  then have d0: "0 \<le> ?d" by (metis zero_le_power2)
  have "\<bar>2 * a * t + b\<bar> = sqrt ?d"
    using sq by (metis real_sqrt_abs)
  then have "2 * a * t + b = sqrt ?d \<or> 2 * a * t + b = - sqrt ?d"
    by (auto simp: abs_if split: if_splits)
  then have "t = (- b + sqrt ?d) / (2 * a) \<or> t = (- b - sqrt ?d) / (2 * a)"
    using a by (auto simp: field_simps)
  then show ?thesis using d0 by blast
qed

lemma quadratic_root_minus:
  fixes a b c :: real
  assumes a: "a \<noteq> 0" and d: "0 \<le> b * b - 4 * a * c"
  shows "a * ((- b - sqrt (b * b - 4 * a * c)) / (2 * a))\<^sup>2
           + b * ((- b - sqrt (b * b - 4 * a * c)) / (2 * a)) + c = 0"
proof -
  let ?s = "sqrt (b * b - 4 * a * c)"
  let ?t = "(- b - ?s) / (2 * a)"
  have s2: "?s * ?s = b * b - 4 * a * c" using d by simp
  have t: "2 * a * ?t + b = - ?s" using a by (simp add: field_simps)
  have "4 * a * (a * ?t\<^sup>2 + b * ?t + c) = (2 * a * ?t + b)\<^sup>2 - (b * b - 4 * a * c)"
    by (rule complete_square)
  also have "\<dots> = (- ?s)\<^sup>2 - (b * b - 4 * a * c)" by (simp only: t)
  also have "\<dots> = 0" using s2 by (simp add: power2_eq_square)
  finally show ?thesis using a by simp
qed

lemma roots_product:
  fixes a b c :: real
  assumes a: "a \<noteq> 0" and d: "0 \<le> b * b - 4 * a * c"
  shows "((- b - sqrt (b * b - 4 * a * c)) / (2 * a)) * ((- b + sqrt (b * b - 4 * a * c)) / (2 * a))
           = c / a"
proof -
  let ?s = "sqrt (b * b - 4 * a * c)"
  have s2: "?s * ?s = b * b - 4 * a * c" using d by simp
  have "(- b - ?s) * (- b + ?s) = b * b - ?s * ?s" by (simp add: algebra_simps)
  then have "(- b - ?s) * (- b + ?s) = 4 * a * c" using s2 by simp
  then have "((- b - ?s) / (2 * a)) * ((- b + ?s) / (2 * a)) = (4 * a * c) / ((2 * a) * (2 * a))"
    by (simp only: times_divide_times_eq)
  also have "\<dots> = c / a" using a by (simp add: field_simps)
  finally show ?thesis .
qed

lemma quadratic_smallest_root:
  fixes a b c :: real
  assumes a: "a \<noteq> 0" and c0: "0 \<le> c" and cb: "c = 0 \<Longrightarrow> b = 0"
    and d: "0 \<le> b * b - 4 * a * c"
  defines "r1 \<equiv> (- b - sqrt (b * b - 4 * a * c)) / (2 * a)"
    and "r2 \<equiv> (- b + sqrt (b * b - 4 * a * c)) / (2 * a)"
  shows "r1 < 0 \<Longrightarrow> r2 < 0" and "0 \<le> r1 \<Longrightarrow> 0 \<le> r2 \<Longrightarrow> r1 \<le> r2"
proof -
  let ?s = "sqrt (b * b - 4 * a * c)"
  have s0: "0 \<le> ?s" using d by simp
  have prod: "r1 * r2 = c / a" unfolding r1_def r2_def by (rule roots_product[OF a d])
  have diff: "r2 - r1 = ?s / a" unfolding r1_def r2_def using a by (simp add: field_simps)
  have szero: "c = 0 \<Longrightarrow> ?s = 0" using cb by simp
  have rzero: "c = 0 \<Longrightarrow> r1 = 0 \<and> r2 = 0" unfolding r1_def r2_def using cb by simp
  {
    assume neg: "r1 < 0"
    show "r2 < 0"
    proof (cases "a > 0")
      case True
      then have "0 \<le> r1 * r2" using prod c0 by simp
      then have "r2 \<le> 0" using neg by (simp add: zero_le_mult_iff)
      moreover have "r2 \<noteq> 0"
      proof
        assume "r2 = 0"
        then have "c / a = 0" using prod by simp
        then have "c = 0" using a by simp
        then show False using rzero neg by simp
      qed
      ultimately show ?thesis by simp
    next
      case False
      then have "a < 0" using a by simp
      then have "?s / a \<le> 0" using s0 by (simp add: divide_nonneg_neg)
      then show ?thesis using diff neg by linarith
    qed
  }
  {
    assume p1: "0 \<le> r1" and p2: "0 \<le> r2"
    show "r1 \<le> r2"
    proof (cases "a > 0")
      case True
      then have "0 \<le> ?s / a" using s0 by simp
      then show ?thesis using diff by linarith
    next
      case False
      then have an: "a < 0" using a by simp
      then have "r1 * r2 \<le> 0" using prod c0 by (simp add: divide_nonneg_neg)
      moreover have "0 \<le> r1 * r2" using p1 p2 by simp
      ultimately have "c / a = 0" using prod by simp
      then have "c = 0" using a by simp
      then show ?thesis using rzero by simp
    qed
  }
qed

subsection \<open>calculateIntercept returns the earliest meeting time\<close>

lemma calculateIntercept_cases:
  fixes threat :: Threat and interceptor :: DefenseSystem
  defines "Vi \<equiv> or_default (shotSpeed interceptor) 0.22"
  defines "q \<equiv> pursuitQuadratic Vi threat interceptor"
  assumes nondeg: "(fst (threatVelocity threat))\<^sup>2 + (snd (threatVelocity threat))\<^sup>2 \<noteq> Vi\<^sup>2"
  shows "(calculateIntercept threat interceptor = Inr None \<and> (\<forall>t\<ge>0. q t \<noteq> 0)) \<or>
         (\<exists>t\<ge>0. calculateIntercept threat interceptor = Inr (Some (positionAt threat t)) \<and>
                 q t = 0 \<and> (\<forall>t'\<ge>0. q t' = 0 \<longrightarrow> t \<le> t'))"
proof -
  define vx where "vx = fst (threatVelocity threat)"
  define vy where "vy = snd (threatVelocity threat)"
  define dx where "dx = lng (current threat) - sys_lng interceptor"
  define dy where "dy = lat (current threat) - sys_lat interceptor"
  define a where "a = vx * vx + vy * vy - Vi * Vi"
  define b where "b = 2 * (vx * dx + vy * dy)"
  define c where "c = dx * dx + dy * dy"
  define disc where "disc = b * b - 4 * a * c"
  define t0 where "t0 = (- b - sqrt disc) / (2 * a)"
  have a0: "a \<noteq> 0"
    using nondeg by (simp add: a_def vx_def vy_def power2_eq_square)
  have ci: "calculateIntercept threat interceptor =
      (if disc < 0 then Inr None
       else if t0 < 0 then Inr None else Inr (Some (positionAt threat t0)))"
    using a0
    by (simp add: calculateIntercept_def Let_def positionAt_def threatVelocity_def
          t0_def disc_def c_def b_def a_def dx_def dy_def vx_def vy_def Vi_def)
  have q: "q t = a * t\<^sup>2 + b * t + c" for t
    by (simp add: q_def pursuitQuadratic_def Let_def a_def b_def c_def vx_def vy_def dx_def
          dy_def power2_eq_square)
  have c0: "0 \<le> c" by (simp add: c_def)
  have cb: "b = 0" if "c = 0"
  proof -
    from that have "dx = 0 \<and> dy = 0" by (simp add: c_def)
    then show ?thesis by (simp add: b_def)
  qed
  have roots: "0 \<le> disc \<and> (t = t0 \<or> t = (- b + sqrt disc) / (2 * a))" if "q t = 0" for t
    using quadratic_roots[OF a0, of t b c] that by (simp add: q disc_def t0_def)
  show ?thesis
  proof (cases "disc < 0")
    case True
    then have "\<forall>t\<ge>0. q t \<noteq> 0" using roots by fastforce
    then show ?thesis using True ci by simp
  next
    case False
    then have d: "0 \<le> b * b - 4 * a * c" by (simp add: disc_def)
    note small = quadratic_smallest_root[OF a0 c0 cb d]
    show ?thesis
    proof (cases "t0 < 0")
      case True
      then have "(- b + sqrt disc) / (2 * a) < 0"
        using small(1) by (simp add: t0_def disc_def)
      then have "\<forall>t\<ge>0. q t \<noteq> 0" using roots True by fastforce
      then show ?thesis using True False ci by simp
    next
      case nonneg: False
      have root0: "q t0 = 0"
        using quadratic_root_minus[OF a0 d] by (simp add: q t0_def disc_def)
      have least: "t0 \<le> t'" if "0 \<le> t'" "q t' = 0" for t'
      proof -
        from roots[OF that(2)] consider "t' = t0" | "t' = (- b + sqrt disc) / (2 * a)" by blast
        then show ?thesis
        proof cases
          case 1
          then show ?thesis by simp
        next
          case 2
          then show ?thesis
            using small(2) nonneg that(1) by (simp add: t0_def disc_def)
        qed
      qed
      show ?thesis
        using nonneg False ci root0 least by (intro disjI2 exI[of _ t0]) auto
    qed
  qed
qed

lemma calculateIntercept_stationary:
  assumes "speed threat = 0" "current threat = sys_pos interceptor" "0 < shotSpeed interceptor"
  shows "calculateIntercept threat interceptor = Inr (Some (positionAt threat 0))"
    and "positionAt threat 0 = current threat"
  using assms
  by (simp_all add: calculateIntercept_def Let_def positionAt_def or_default_def sys_pos_def)

lemma atan2_east [simp]: "0 < x \<Longrightarrow> atan2 0 x = 0"
  by (simp add: atan2_def)

lemma atan2_west [simp]: "x < 0 \<Longrightarrow> atan2 0 x = pi"
  by (simp add: atan2_def)

lemma atan2_origin [simp]: "atan2 0 0 = 0"
  by (simp add: atan2_def)

lemma demoThreat_velocity: "threatVelocity demoThreat = (0.03, 0)"
  by (simp add: threatVelocity_def demoThreat_def)

lemma sqrt_quarter: "sqrt (1 / 4) = 1 / 2"
  by (rule real_sqrt_unique) (simp_all add: power2_eq_square)

lemma sqrt_121_625: "sqrt (121 / 625) = 11 / 25"
  by (rule real_sqrt_unique) (simp_all add: power2_eq_square)

lemma demo_barak_intercept:
  "calculateIntercept demoThreat barak = Inr (Some (latLng 7 (80 + 3 / 28)))"
  by (simp add: calculateIntercept_def Let_def demoThreat_def barak_def or_default_def
        sqrt_quarter)

lemma demo_custom_intercept:
  "calculateIntercept demoThreat custom = Inr (Some (latLng 7 80.12))"
  by (simp add: calculateIntercept_def Let_def demoThreat_def custom_def or_default_def
        sqrt_121_625)

text \<open>
  C2 (as amended). \<open>calculateIntercept\<close> solves \<open>a t\<^sup>2 + b t + c = 0\<close> with
  \<open>a = |v|\<^sup>2 - Vi\<^sup>2\<close>, \<open>b = 2 (v \<cdot> \<Delta>)\<close>, \<open>c = |\<Delta>|\<^sup>2\<close>, where \<open>Vi\<close> is the
  interceptor's shot speed, or 0.22 when that is 0. When \<open>a \<noteq> 0\<close> it returns no point
  exactly when the quadratic has no root \<open>t \<ge> 0\<close> (negative discriminant, or a negative
  selected root), and otherwise the threat's straight-line position at the smallest root
  \<open>t \<ge> 0\<close>. For a threat of speed 0 and an interceptor with a positive shot speed at
  the threat's position, that time is 0 and the point is the threat's current position.
\<close>

theorem calculateIntercept_smallest_root:
  "((fst (threatVelocity threat))\<^sup>2 + (snd (threatVelocity threat))\<^sup>2
       \<noteq> (or_default (shotSpeed interceptor) 0.22)\<^sup>2 \<longrightarrow>
     (calculateIntercept threat interceptor = Inr None \<and>
        (\<forall>t\<ge>0. pursuitQuadratic (or_default (shotSpeed interceptor) 0.22) threat interceptor t \<noteq> 0)) \<or>
     (\<exists>t\<ge>0. calculateIntercept threat interceptor = Inr (Some (positionAt threat t)) \<and>
         pursuitQuadratic (or_default (shotSpeed interceptor) 0.22) threat interceptor t = 0 \<and>
         (\<forall>t'\<ge>0. pursuitQuadratic (or_default (shotSpeed interceptor) 0.22) threat interceptor t' = 0
                  \<longrightarrow> t \<le> t'))) \<and>
   (speed threat = 0 \<and> current threat = sys_pos interceptor \<and> 0 < shotSpeed interceptor \<longrightarrow>
     calculateIntercept threat interceptor = Inr (Some (positionAt threat 0)) \<and>
     positionAt threat 0 = current threat)"
  using calculateIntercept_cases[of threat interceptor]
        calculateIntercept_stationary[of threat interceptor]
  by blast

theorem calculateIntercept_smallest_root_witness:
  "(fst (threatVelocity demoThreat))\<^sup>2 + (snd (threatVelocity demoThreat))\<^sup>2
       \<noteq> (or_default (shotSpeed barak) 0.22)\<^sup>2 \<and>
   calculateIntercept demoThreat barak = Inr (Some (positionAt demoThreat (25 / 7))) \<and>
   pursuitQuadratic (or_default (shotSpeed barak) 0.22) demoThreat barak (25 / 7) = 0 \<and>
   \<not> (\<exists>t'. 0 \<le> t' \<and> t' < 25 / 7 \<and>
           pursuitQuadratic (or_default (shotSpeed barak) 0.22) demoThreat barak t' = 0) \<and>
   speed (demoThreat \<lparr> speed := 0, current := sys_pos barak \<rparr>) = 0 \<and>
   calculateIntercept (demoThreat \<lparr> speed := 0, current := sys_pos barak \<rparr>) barak
     = Inr (Some (sys_pos barak))"
proof -
  let ?q = "pursuitQuadratic (or_default (shotSpeed barak) 0.22) demoThreat barak"
  have nondeg: "(fst (threatVelocity demoThreat))\<^sup>2 + (snd (threatVelocity demoThreat))\<^sup>2
       \<noteq> (or_default (shotSpeed barak) 0.22)\<^sup>2"
    by (simp add: demoThreat_velocity barak_def or_default_def power2_eq_square)
  have pos: "positionAt demoThreat t = latLng 7 (80 + 0.03 * t)" for t
    by (simp add: positionAt_def demoThreat_velocity) (simp add: demoThreat_def)
  have calc: "calculateIntercept demoThreat barak = Inr (Some (positionAt demoThreat (25 / 7)))"
    by (simp add: demo_barak_intercept pos)
  from calculateIntercept_smallest_root[of demoThreat barak] nondeg calc
  obtain t where t: "0 \<le> t" "positionAt demoThreat (25 / 7) = positionAt demoThreat t"
      "?q t = 0" "\<forall>t'\<ge>0. ?q t' = 0 \<longrightarrow> t \<le> t'"
    by auto
  from t(2) have teq: "t = 25 / 7" by (simp add: pos)
  have least: "\<not> (\<exists>t'. 0 \<le> t' \<and> t' < 25 / 7 \<and> ?q t' = 0)"
    using t(4) teq by fastforce
  have stat: "calculateIntercept (demoThreat \<lparr> speed := 0, current := sys_pos barak \<rparr>) barak
     = Inr (Some (sys_pos barak))"
    using calculateIntercept_smallest_root[of "demoThreat \<lparr> speed := 0, current := sys_pos barak \<rparr>" barak]
    by (simp add: barak_def)
  show ?thesis using nondeg calc t(3) teq least stat by simp
qed

text \<open>
  C2 as stated fails for an interceptor whose shot speed is 0: the code computes with 0.22.
  It meets the threat at time 4, which is no root of the quadratic with
  \<open>a = |v|\<^sup>2 - shotSpeed\<^sup>2\<close>; that quadratic's root is 100/3, another point.
\<close>

theorem calculateIntercept_zero_shotSpeed_counterexample:
  "shotSpeed custom = 0 \<and>
   calculateIntercept demoThreat custom = Inr (Some (positionAt demoThreat 4)) \<and>
   spec_quadratic demoThreat custom 4 \<noteq> 0 \<and>
   spec_quadratic demoThreat custom (100 / 3) = 0 \<and>
   positionAt demoThreat (100 / 3) \<noteq> positionAt demoThreat 4"
proof -
  have pos: "positionAt demoThreat t = latLng 7 (80 + 0.03 * t)" for t
    by (simp add: positionAt_def demoThreat_velocity) (simp add: demoThreat_def)
  have q: "spec_quadratic demoThreat custom t = 0.0009 * t\<^sup>2 - 0.06 * t + 1" for t
    by (simp add: spec_quadratic_def pursuitQuadratic_def Let_def demoThreat_velocity)
       (simp add: demoThreat_def custom_def power2_eq_square)
  show ?thesis
    by (simp add: demo_custom_intercept pos q power2_eq_square) (simp add: custom_def)
qed

section \<open>Kinematic simulation\<close>

subsection \<open>One threat in one sub-step\<close>

lemma impactOrMove_cases:
  "impactOrMove d cs np th = (th', r) \<Longrightarrow>
     interceptorId th' = interceptorId th \<and>
     (r = Hit \<and> status th' = IMPACTED \<or> r = Unresolved \<and> status th' = status th)"
  by (auto simp: impactOrMove_def split: if_splits)

lemma pursueAndResolve_cases:
  "pursueAndResolve d systems cs dt np th = (th', r) \<Longrightarrow>
     interceptorId th' = interceptorId th \<and>
     (r = Killed \<and> status th' = INTERCEPTED \<or> r = Hit \<and> status th' = IMPACTED \<or>
      r = Unresolved \<and> status th' = status th)"
  by (auto simp: pursueAndResolve_def Let_def split: option.splits if_splits
           dest!: impactOrMove_cases)

lemma bindFirst_status: "bindFirst d th cands = Inr th' \<Longrightarrow> status th' = status th"
  by (induction cands) (auto split: sum.splits option.splits if_splits)

lemma detectAndBind_status: "detectAndBind d systems np th = Inr th' \<Longrightarrow> status th' = status th"
  by (auto simp: detectAndBind_def Let_def split: option.splits if_splits dest: bindFirst_status)

lemma detectAndBind_bound:
  "truthy_id (interceptorId th) \<Longrightarrow>
   detectAndBind d systems np th =
     Inr (case List.find (\<lambda>r. d np (latLng (sys_lat r) (sys_lng r)) / 1000 \<le> sys_range r)
                 (activeRadars systems) of
            None \<Rightarrow> th
          | Some r \<Rightarrow> th \<lparr> detectedByRadarId := Some (sys_id r) \<rparr>)"
  by (simp add: detectAndBind_def Let_def split: option.splits)

lemma stepThreat_terminal:
  "status th \<noteq> MOVING \<Longrightarrow> stepThreat d systems cs dt th = Inr (th, Unresolved)"
  by (simp add: stepThreat_def)

lemma stepThreat_resolution:
  assumes "stepThreat d systems cs dt th = Inr (th', r)"
  shows "r = Unresolved \<and> status th' = status th \<or>
         r = Killed \<and> status th = MOVING \<and> status th' = INTERCEPTED \<or>
         r = Hit \<and> status th = MOVING \<and> status th' = IMPACTED"
proof (cases "status th = MOVING")
  case False
  then show ?thesis using assms by (simp add: stepThreat_def)
next
  case True
  with assms obtain th1 where b: "detectAndBind d systems (nextPosition dt th) th = Inr th1"
    and p: "pursueAndResolve d systems cs dt (nextPosition dt th) th1 = (th', r)"
    by (auto simp: stepThreat_def Let_def split: sum.splits)
  from detectAndBind_status[OF b] pursueAndResolve_cases[OF p] True
  show ?thesis by auto
qed

lemma stepThreat_sticky:
  assumes "stepThreat d systems cs dt th = Inr (th', r)" "truthy_id (interceptorId th)"
  shows "interceptorId th' = interceptorId th"
proof (cases "status th = MOVING")
  case False
  then show ?thesis using assms by (simp add: stepThreat_def)
next
  case True
  with assms obtain th1 where b: "detectAndBind d systems (nextPosition dt th) th = Inr th1"
    and p: "pursueAndResolve d systems cs dt (nextPosition dt th) th1 = (th', r)"
    by (auto simp: stepThreat_def Let_def split: sum.splits)
  from b assms(2) have "interceptorId th1 = interceptorId th"
    by (auto simp: detectAndBind_bound split: option.splits)
  with pursueAndResolve_cases[OF p] show ?thesis by simp
qed

subsection \<open>All threats, all sub-steps, all events\<close>

lemma sticky_trans: "sticky a b \<Longrightarrow> sticky b c \<Longrightarrow> sticky a c"
  by (auto simp: sticky_def)

lemma settled_trans: "settled a b \<Longrightarrow> settled b c \<Longrightarrow> settled a c"
  by (auto simp: settled_def)

lemma stepThreats_props:
  "stepThreats d systems cs dt ts st = Inr (ts', st') \<Longrightarrow>
     list_all2 sticky ts ts' \<and> list_all2 settled ts ts' \<and>
     launched st' = launched st \<and> balance ts' st' = balance ts st"
proof (induction ts arbitrary: st ts' st')
  case Nil
  then show ?case by simp
next
  case (Cons th ts)
  from Cons.prems obtain th' r rest' where
    h: "stepThreat d systems cs dt th = Inr (th', r)"
    and t: "stepThreats d systems cs dt ts (countResolution r st) = Inr (rest', st')"
    and eq: "ts' = th' # rest'"
    by (auto split: sum.splits prod.splits)
  note IH = Cons.IH[OF t]
  have s1: "sticky th th'" using stepThreat_sticky[OF h] by (simp add: sticky_def)
  have s2: "settled th th'" using h by (auto simp: settled_def stepThreat_terminal)
  have l: "launched (countResolution r st) = launched st"
    by (cases r) (simp_all add: countResolution_def)
  have b: "balance (th' # rest') st' = balance (th # ts) st"
    using IH stepThreat_resolution[OF h]
    by (cases r) (auto simp: balance_def movingCount_def countResolution_def)
  show ?case using IH s1 s2 l b eq by simp
qed

lemma list_all2_trans_rel:
  "(\<And>a b c. R a b \<Longrightarrow> R b c \<Longrightarrow> R a c) \<Longrightarrow> list_all2 R xs ys \<Longrightarrow> list_all2 R ys zs \<Longrightarrow>
   list_all2 R xs zs"
  by (rule list_all2_trans) 

lemma substepLoop_props:
  "substepLoop d systems cs dt n ts st = Inr (ts', st') \<Longrightarrow>
     list_all2 sticky ts ts' \<and> list_all2 settled ts ts' \<and>
     launched st' = launched st \<and> balance ts' st' = balance ts st"
proof (induction n arbitrary: ts st)
  case 0
  then show ?case by (simp add: list_all2_refl sticky_def settled_def)
next
  case (Suc n)
  from Suc.prems obtain ts1 st1 where
    h: "stepThreats d systems cs dt ts st = Inr (ts1, st1)"
    and t: "substepLoop d systems cs dt n ts1 st1 = Inr (ts', st')"
    by (auto split: sum.splits prod.splits)
  from stepThreats_props[OF h] Suc.IH[OF t]
  show ?case
    by (auto intro: list_all2_trans_rel[of sticky] list_all2_trans_rel[of settled]
          sticky_trans settled_trans)
qed

lemma keeps_refl: "(\<And>t. R t t) \<Longrightarrow> keeps R ts ts"
  by (simp add: keeps_def)

lemma keeps_append: "(\<And>t. R t t) \<Longrightarrow> keeps R ts (ts @ us)"
  by (simp add: keeps_def nth_append)

lemma keeps_same_length: "list_all2 R ts ts' \<Longrightarrow> keeps R ts ts'"
  by (simp add: keeps_def list_all2_conv_all_nth)

lemma keeps_trans:
  assumes tr: "\<And>a b c. R a b \<Longrightarrow> R b c \<Longrightarrow> R a c"
    and 1: "keeps R xs ys" and 2: "keeps R ys zs"
  shows "keeps R xs zs"
  unfolding keeps_def
proof (intro conjI allI impI)
  show "length xs \<le> length zs" using 1 2 by (simp add: keeps_def)
next
  fix i assume i: "i < length xs"
  then have "R (xs ! i) (ys ! i)" "R (ys ! i) (zs ! i)" using 1 2 by (simp_all add: keeps_def)
  then show "R (xs ! i) (zs ! i)" by (rule tr)
qed

lemma keeps_nth:
  "keeps R ts ts' \<Longrightarrow> i < length ts \<Longrightarrow> i < length ts' \<and> R (ts ! i) (ts' ! i)"
  by (simp add: keeps_def)

lemma updateSimulation_props:
  assumes "updateSimulation d systems cs time s = Inr s'"
  shows "list_all2 sticky (threats s) (threats s') \<and> list_all2 settled (threats s) (threats s') \<and>
         launched (stats s') = launched (stats s) \<and>
         balance (threats s') (stats s') = balance (threats s) (stats s)"
proof -
  have refl: "list_all2 sticky (threats s) (threats s)" "list_all2 settled (threats s) (threats s)"
    by (simp_all add: list_all2_refl sticky_def settled_def)
  show ?thesis
  proof (cases "lastUpdate s = 0 \<or> threats s = []")
    case True
    then have "threats s' = threats s \<and> stats s' = stats s"
      using assms by (auto simp: updateSimulation_def Let_def split: if_splits)
    then show ?thesis using refl by simp
  next
    case False
    with assms obtain n dt ts' st' where
      l: "substepLoop d systems cs dt n (threats s) (stats s) = Inr (ts', st')"
      and s': "threats s' = ts'" "stats s' = st'"
      by (auto simp: updateSimulation_def Let_def split: sum.splits prod.splits)
    from substepLoop_props[OF l] s' show ?thesis by simp
  qed
qed

lemma applyEvent_props:
  assumes "applyEvent d ev s = Inr s'" "ev \<noteq> Deactivate"
  shows "keeps sticky (threats s) (threats s') \<and> keeps settled (threats s) (threats s')"
proof (cases ev)
  case (Activate now)
  then show ?thesis
    using assms by (auto simp: activate_def intro!: keeps_refl simp: sticky_def settled_def)
next
  case Deactivate
  then show ?thesis using assms by simp
next
  case (Launch newId now attackerType attackerSpeedScale startPos targetPos)
  then have "threats s' = threats s @ [last (threats s')]"
    using assms by (auto simp: launchThreat_def Let_def)
  then show ?thesis
    using keeps_append[of sticky "threats s" "[last (threats s')]"]
          keeps_append[of settled "threats s" "[last (threats s')]"]
    by (simp add: sticky_def settled_def)
next
  case (Tick systems currentSpeed time)
  then show ?thesis
    using assms updateSimulation_props[of d systems currentSpeed time s s']
    by (auto intro: keeps_same_length)
qed

lemma run_keeps:
  "run d evs s = Inr s' \<Longrightarrow> Deactivate \<notin> set evs \<Longrightarrow>
   keeps sticky (threats s) (threats s') \<and> keeps settled (threats s) (threats s')"
proof (induction evs arbitrary: s)
  case Nil
  then show ?case by (auto intro!: keeps_refl simp: sticky_def settled_def)
next
  case (Cons ev evs)
  from Cons.prems obtain s1 where h: "applyEvent d ev s = Inr s1" and t: "run d evs s1 = Inr s'"
    by (auto split: sum.splits)
  from applyEvent_props[OF h] Cons.IH[OF t] Cons.prems(2)
  show ?case
    by (auto intro: keeps_trans[of sticky] keeps_trans[of settled] sticky_trans settled_trans)
qed

lemma applyEvent_counted:
  assumes "applyEvent d ev s = Inr s'" "counted s"
  shows "counted s'"
proof (cases ev)
  case (Activate now)
  then show ?thesis using assms by (auto simp: activate_def counted_def)
next
  case Deactivate
  then show ?thesis using assms by (auto simp: deactivate_def counted_def movingCount_def)
next
  case (Launch newId now attackerType attackerSpeedScale startPos targetPos)
  then show ?thesis
    using assms by (auto simp: launchThreat_def Let_def counted_def movingCount_def)
next
  case (Tick systems currentSpeed time)
  then show ?thesis
    using assms updateSimulation_props[of d systems currentSpeed time s s']
    by (auto simp: counted_def balance_def)
qed

lemma run_counted: "run d evs s = Inr s' \<Longrightarrow> counted s \<Longrightarrow> counted s'"
proof (induction evs arbitrary: s)
  case Nil
  then show ?case by simp
next
  case (Cons ev evs)
  from Cons.prems obtain s1 where h: "applyEvent d ev s = Inr s1" and t: "run d evs s1 = Inr s'"
    by (auto split: sum.splits)
  from applyEvent_counted[OF h Cons.prems(2)] Cons.IH[OF t] show ?case by simp
qed

lemma counted_initial: "counted initialState"
  by (simp add: counted_def initialState_def movingCount_def)

subsection \<open>Where the simulation cannot throw\<close>

lemma stepThreat_no_radar:
  "activeRadars systems = [] \<Longrightarrow> \<exists>res. stepThreat d systems cs dt th = Inr res"
  by (simp add: stepThreat_def detectAndBind_def Let_def)

lemma stepThreats_total:
  "(\<And>th. \<exists>res. stepThreat d systems cs dt th = Inr res) \<Longrightarrow>
   \<exists>res. stepThreats d systems cs dt ts st = Inr res"
proof (induction ts arbitrary: st)
  case Nil
  then show ?case by simp
next
  case (Cons th ts)
  from Cons.prems obtain th' r where h: "stepThreat d systems cs dt th = Inr (th', r)"
    by (metis surj_pair)
  from Cons.IH[OF Cons.prems, of "countResolution r st"] obtain rest' st' where
    "stepThreats d systems cs dt ts (countResolution r st) = Inr (rest', st')"
    by (metis surj_pair)
  with h show ?case by simp
qed

lemma substepLoop_total:
  "(\<And>th. \<exists>res. stepThreat d systems cs dt th = Inr res) \<Longrightarrow>
   \<exists>res. substepLoop d systems cs dt n ts st = Inr res"
proof (induction n arbitrary: ts st)
  case 0
  then show ?case by simp
next
  case (Suc n)
  from stepThreats_total[OF Suc.prems, of ts st] obtain ts1 st1 where
    h: "stepThreats d systems cs dt ts st = Inr (ts1, st1)"
    by (metis surj_pair)
  from Suc.IH[OF Suc.prems, of ts1 st1] h show ?case by simp
qed

lemma updateSimulation_no_radar:
  assumes "activeRadars systems = []"
  shows "\<exists>s'. updateSimulation d systems cs time s = Inr s'"
proof -
  have tot: "substepLoop d systems cs dt n ts st \<noteq> Inl e" for dt n ts st e
    using substepLoop_total[of d systems cs dt n ts st] stepThreat_no_radar[OF assms]
    by auto
  have "updateSimulation d systems cs time s \<noteq> Inl e" for e
    by (auto simp: updateSimulation_def Let_def tot split: sum.splits if_splits)
  then show ?thesis
    by (cases "updateSimulation d systems cs time s") auto
qed

subsection \<open>Concrete runs\<close>

lemma planarDistance_same_lat [simp]:
  "planarDistance (latLng a x) (latLng a y) = 111000 * \<bar>x - y\<bar>"
  by (simp add: planarDistance_def)

lemmas sim_defs = stepThreat_def detectAndBind_def pursueAndResolve_def impactOrMove_def
  nextPosition_def nextInterceptorPos_def killRadius_def impactThreshold_def
  activeRadars_def activeInterceptors_def bestCandidates_def truthy_id_def or_default_def
  countResolution_def Let_def

lemma ceiling_5_2: "\<lceil>5 / 2 :: real\<rceil> = 3"
  by (simp add: ceiling_eq_iff)

lemma sqrt_4_25: "sqrt (4 / 25) = 2 / 5"
  by (rule real_sqrt_unique) (simp_all add: power2_eq_square)

lemma nearThreat_step:
  "stepThreat planarDistance [radarEast, barak] 1 0.01 nearThreat =
     Inr (nearThreat \<lparr> detectedByRadarId := Some ''r2'', status := INTERCEPTED,
                       current := latLng 7 80.9993 \<rparr>, Killed)"
  by (simp add: sim_defs nearThreat_def demoThreat_def radarEast_def barak_def)

lemma bestCandidates_demo: "bestCandidates [radarEast, barak, odin] = [odin, barak]"
  by (simp add: bestCandidates_def activeInterceptors_def radarEast_def barak_def odin_def)

lemma odin_feasible:
  "bindFirst planarDistance (boundThreat \<lparr> interceptorId := None \<rparr>) [odin, barak] =
     Inr (boundThreat \<lparr> interceptorId := Some ''o1'', interceptorPos := Some (latLng 7 81),
            predictedInterceptPoint := Some (latLng 7 (80.9 + 0.03 * (10 / 203))) \<rparr>)"
  by (simp add: calculateIntercept_def Let_def boundThreat_def demoThreat_def odin_def
        or_default_def sqrt_4_25)

lemma engaged_tick:
  "\<exists>s'. run planarDistance [Tick [radarEast, barak, odin] 1 1100] engagedState = Inr s' \<and>
        length (threats s') = 1 \<and> status (threats s' ! 0) = MOVING"
  by (simp add: updateSimulation_def engagedState_def ceiling_5_2 numeral_3_eq_3 sim_defs
        boundThreat_def demoThreat_def radarEast_def barak_def odin_def)

lemma twoLaunches_run:
  "\<exists>s. run planarDistance twoLaunches initialState = Inr s \<and>
       launched (stats s) = 2 \<and> intercepted (stats s) = 0 \<and> impacted (stats s) = 1 \<and>
       length (threats s) = 2 \<and> status (threats s ! 0) = MOVING \<and>
       status (threats s ! 1) = IMPACTED \<and> lastUpdate s = 1100"
  by (simp add: twoLaunches_def initialState_def activate_def launchThreat_def
        updateSimulation_def ceiling_5_2 numeral_3_eq_3 sim_defs cruise_def
        BASE_THREAT_SPEED_def)

subsection \<open>Sticky binding\<close>

text \<open>
  C4. A threat holds at most one interceptor binding (the one optional field
  \<open>interceptorId\<close>). Once the binding is set (a non-empty id, which is what the code
  tests), no later event of the run short of the reset changes it, whatever systems the
  later ticks see: a faster feasible interceptor does not take the threat over.
\<close>

theorem binding_never_reassigned:
  "run d evs s = Inr s' \<Longrightarrow> Deactivate \<notin> set evs \<Longrightarrow> i < length (threats s) \<Longrightarrow>
   truthy_id (interceptorId (threats s ! i)) \<Longrightarrow>
   i < length (threats s') \<and> interceptorId (threats s' ! i) = interceptorId (threats s ! i)"
  using run_keeps[of d evs s s'] keeps_nth[of sticky "threats s" "threats s'" i]
  by (simp add: sticky_def)

theorem binding_never_reassigned_witness:
  "Deactivate \<notin> set [Tick [radarEast, barak, odin] 1 1100] \<and>
   0 < length (threats engagedState) \<and>
   truthy_id (interceptorId (threats engagedState ! 0)) \<and>
   bestCandidates [radarEast, barak, odin] = [odin, barak] \<and>
   shotSpeed barak < shotSpeed odin \<and>
   (\<exists>th. bindFirst planarDistance (boundThreat \<lparr> interceptorId := None \<rparr>) [odin, barak] = Inr th \<and>
         interceptorId th = Some ''o1'') \<and>
   (\<exists>s'. run planarDistance [Tick [radarEast, barak, odin] 1 1100] engagedState = Inr s' \<and>
         status (threats s' ! 0) = MOVING \<and> interceptorId (threats s' ! 0) = Some ''b1'')"
proof -
  have 1: "Deactivate \<notin> set [Tick [radarEast, barak, odin] 1 1100]" by simp
  have 2: "0 < length (threats engagedState)" by (simp add: engagedState_def)
  have 3: "truthy_id (interceptorId (threats engagedState ! 0))"
    by (simp add: engagedState_def boundThreat_def truthy_id_def)
  have 4: "shotSpeed barak < shotSpeed odin" by (simp add: barak_def odin_def)
  have 5: "\<exists>th. bindFirst planarDistance (boundThreat \<lparr> interceptorId := None \<rparr>) [odin, barak] = Inr th \<and>
         interceptorId th = Some ''o1''"
    by (subst odin_feasible) simp
  from engaged_tick obtain s' where
    r: "run planarDistance [Tick [radarEast, barak, odin] 1 1100] engagedState = Inr s'"
    and m: "status (threats s' ! 0) = MOVING"
    by blast
  from binding_never_reassigned[OF r 1 2 3]
  have "interceptorId (threats s' ! 0) = Some ''b1''"
    by (simp add: engagedState_def boundThreat_def)
  with r m 1 2 3 4 5 bestCandidates_demo show ?thesis by blast
qed

subsection \<open>Threat lifecycle and counters\<close>

text \<open>
  C5. In every state a run reaches from the initial state, launched = intercepted +
  impacted + the number of MOVING threats. A threat that is not MOVING is left as it is by
  the sub-step, and by every later event short of the reset (which removes all threats).
\<close>

theorem terminal_and_counters:
  "(run d evs initialState = Inr s \<longrightarrow>
      launched (stats s) = intercepted (stats s) + impacted (stats s) + movingCount (threats s)) \<and>
   (status threat \<noteq> MOVING \<longrightarrow> stepThreat d systems currentSpeed dt threat = Inr (threat, Unresolved)) \<and>
   (run d later sa = Inr sb \<and> Deactivate \<notin> set later \<and> i < length (threats sa) \<and>
      status (threats sa ! i) \<noteq> MOVING \<longrightarrow>
      i < length (threats sb) \<and> threats sb ! i = threats sa ! i)"
  using run_counted[of d evs initialState s] counted_initial
        run_keeps[of d later sa sb] keeps_nth[of settled "threats sa" "threats sb" i]
  by (auto simp: counted_def settled_def stepThreat_terminal)

theorem terminal_and_counters_witness:
  "\<exists>s. run planarDistance twoLaunches initialState = Inr s \<and>
       launched (stats s) = 2 \<and> intercepted (stats s) = 0 \<and> impacted (stats s) = 1 \<and>
       movingCount (threats s) = 1 \<and> status (threats s ! 1) = IMPACTED \<and>
       stepThreat planarDistance [] 1 1 (threats s ! 1) = Inr (threats s ! 1, Unresolved) \<and>
       (\<exists>s2. run planarDistance [Tick [] 1 1200] s = Inr s2 \<and> threats s2 ! 1 = threats s ! 1)"
proof -
  from twoLaunches_run obtain s where
    r: "run planarDistance twoLaunches initialState = Inr s"
    and c: "launched (stats s) = 2" "intercepted (stats s) = 0" "impacted (stats s) = 1"
    and t: "length (threats s) = 2" "status (threats s ! 0) = MOVING"
      "status (threats s ! 1) = IMPACTED" "lastUpdate s = 1100"
    by blast
  have ex: "\<exists>s2. run planarDistance [Tick [] 1 1200] s = Inr s2"
    using updateSimulation_no_radar[of "[]" planarDistance 1 1200 s]
    by (auto simp: activeRadars_def)
  from ex obtain s2 where r2: "run planarDistance [Tick [] 1 1200] s = Inr s2" by blast
  note inst = terminal_and_counters[where d = planarDistance and evs = twoLaunches and s = s
      and threat = "threats s ! 1" and systems = "[]" and currentSpeed = "1" and dt = "1"
      and later = "[Tick [] 1 1200]" and sa = s and sb = s2 and i = "1::nat"]
  have mc: "movingCount (threats s) = 1"
    using inst r c by simp
  from inst r r2 t c mc
  show ?thesis by (auto simp: stepThreat_terminal)
qed

subsection \<open>Kill check before impact check\<close>

text \<open>
  C10. Within one sub-step, a MOVING threat that is bound after the detection and
  assignment block and whose interceptor's next pursuit position is within the kill radius
  of the threat's next position is marked INTERCEPTED at that position, and only the
  intercepted counter is bumped; the impact check is not reached, whatever the distance to
  the target.
\<close>

theorem kill_check_precedes_impact_check:
  assumes "status threat = MOVING"
    and "detectAndBind d systems (nextPosition dt threat) threat = Inr threat'"
    and "truthy_id (interceptorId threat')" and "interceptorPos threat' = Some ipos"
    and "d (nextInterceptorPos systems dt (nextPosition dt threat) threat' ipos)
           (nextPosition dt threat) < killRadius currentSpeed threat'"
  shows "stepThreat d systems currentSpeed dt threat =
           Inr (threat' \<lparr> status := INTERCEPTED, current := nextPosition dt threat \<rparr>, Killed) \<and>
         intercepted (countResolution Killed st) = intercepted st + 1 \<and>
         impacted (countResolution Killed st) = impacted st"
  using assms
  by (simp add: stepThreat_def Let_def pursueAndResolve_def countResolution_def)

theorem kill_check_precedes_impact_check_witness:
  "status nearThreat = MOVING \<and>
   detectAndBind planarDistance [radarEast, barak] (nextPosition 0.01 nearThreat) nearThreat
     = Inr (nearThreat \<lparr> detectedByRadarId := Some ''r2'' \<rparr>) \<and>
   planarDistance (nextPosition 0.01 nearThreat) (target nearThreat) < impactThreshold 1 \<and>
   planarDistance
     (nextInterceptorPos [radarEast, barak] 0.01 (nextPosition 0.01 nearThreat)
        (nearThreat \<lparr> detectedByRadarId := Some ''r2'' \<rparr>) (latLng 7 81))
     (nextPosition 0.01 nearThreat)
     < killRadius 1 (nearThreat \<lparr> detectedByRadarId := Some ''r2'' \<rparr>) \<and>
   stepThreat planarDistance [radarEast, barak] 1 0.01 nearThreat =
     Inr (nearThreat \<lparr> detectedByRadarId := Some ''r2'', status := INTERCEPTED,
                       current := nextPosition 0.01 nearThreat \<rparr>, Killed)"
proof -
  have 1: "status nearThreat = MOVING" by (simp add: nearThreat_def demoThreat_def)
  have np: "nextPosition 0.01 nearThreat = latLng 7 80.9993"
    by (simp add: nextPosition_def nearThreat_def demoThreat_def)
  have 2: "detectAndBind planarDistance [radarEast, barak] (nextPosition 0.01 nearThreat) nearThreat
     = Inr (nearThreat \<lparr> detectedByRadarId := Some ''r2'' \<rparr>)"
    unfolding np
    by (simp add: detectAndBind_def activeRadars_def radarEast_def barak_def truthy_id_def
          nearThreat_def Let_def)
  have 3: "truthy_id (interceptorId (nearThreat \<lparr> detectedByRadarId := Some ''r2'' \<rparr>))"
    by (simp add: truthy_id_def nearThreat_def)
  have 4: "interceptorPos (nearThreat \<lparr> detectedByRadarId := Some ''r2'' \<rparr>) = Some (latLng 7 81)"
    by (simp add: nearThreat_def)
  have ip: "nextInterceptorPos [radarEast, barak] 0.01 (latLng 7 80.9993)
        (nearThreat \<lparr> detectedByRadarId := Some ''r2'' \<rparr>) (latLng 7 81) = latLng 7 80.9975"
    by (simp add: nextInterceptorPos_def nearThreat_def radarEast_def barak_def or_default_def
          Let_def)
  have 5: "planarDistance
     (nextInterceptorPos [radarEast, barak] 0.01 (nextPosition 0.01 nearThreat)
        (nearThreat \<lparr> detectedByRadarId := Some ''r2'' \<rparr>) (latLng 7 81))
     (nextPosition 0.01 nearThreat)
     < killRadius 1 (nearThreat \<lparr> detectedByRadarId := Some ''r2'' \<rparr>)"
    unfolding np ip by (simp add: killRadius_def nearThreat_def demoThreat_def)
  have 6: "planarDistance (nextPosition 0.01 nearThreat) (target nearThreat) < impactThreshold 1"
    unfolding np by (simp add: impactThreshold_def nearThreat_def demoThreat_def)
  from kill_check_precedes_impact_check[OF 1 2 3 4 5]
  show ?thesis using 1 2 5 6 by simp
qed

section \<open>Deployment mutation\<close>

lemma SL_BOUNDS_ordered:
  "minLat SL_BOUNDS \<le> maxLat SL_BOUNDS" "minLng SL_BOUNDS \<le> maxLng SL_BOUNDS"
  by (simp_all add: SL_BOUNDS_def)

lemma clamp_inside: "lo \<le> hi \<Longrightarrow> lo \<le> max lo (min hi (x::real)) \<and> max lo (min hi x) \<le> hi"
  by auto

lemma scale_inside:
  fixes u lo hi :: real
  assumes "0 \<le> u" "u < 1" "lo \<le> hi"
  shows "lo \<le> u * (hi - lo) + lo \<and> u * (hi - lo) + lo \<le> hi"
proof -
  have "0 \<le> u * (hi - lo)" using assms by simp
  moreover have "u * (hi - lo) \<le> 1 * (hi - lo)"
    using assms by (intro mult_right_mono) simp_all
  ultimately show ?thesis by simp
qed

lemma mutateUnit_moved:
  assumes "unitInterval rnd"
  shows "moved sys (fst (mutateUnit radarSecured forceHighEntropy rnd n sys))"
proof -
  have u: "0 \<le> rnd k" "rnd k < 1" for k using assms by (simp_all add: unitInterval_def)
  note s1 = scale_inside[OF u SL_BOUNDS_ordered(1)] 
  note s2 = scale_inside[OF u SL_BOUNDS_ordered(2)]
  note c1 = clamp_inside[OF SL_BOUNDS_ordered(1)]
  note c2 = clamp_inside[OF SL_BOUNDS_ordered(2)]
  show ?thesis
    unfolding mutateUnit_def moved_def inBounds_def Let_def
    using s1 s2 c1 c2 by (simp del: max.bounded_iff min.bounded_iff)
qed

lemma mutateLoop_props:
  "unitInterval rnd \<Longrightarrow> list_all2 moved base (mutateLoop radarSecured forceHighEntropy rnd n base)"
proof (induction base arbitrary: n)
  case Nil
  then show ?case by simp
next
  case (Cons sys rest)
  obtain sys' n' where m: "mutateUnit radarSecured forceHighEntropy rnd n sys = (sys', n')"
    by (cases "mutateUnit radarSecured forceHighEntropy rnd n sys")
  from mutateUnit_moved[OF Cons.prems, of sys radarSecured forceHighEntropy n] m
  have "moved sys sys'" by simp
  then show ?case using m Cons.IH[OF Cons.prems, of n'] by simp
qed

lemma mutateLoop_length: "length (mutateLoop radarSecured forceHighEntropy rnd n base) = length base"
  by (induction base arbitrary: n) (auto simp: Let_def split: prod.splits)

text \<open>
  C8 (as amended). The output layout is as long as the input layout. With draws in [0, 1),
  every output unit is either the input unit unchanged or the input unit at a new position
  inside the bounding box; so when every input position lies in the box, so does every
  output position.
\<close>

theorem mutateDeployment_length_and_bounds:
  "length (mutateDeployment baseSystems radarSecured geoData placementStrategy forceHighEntropy rnd)
     = length baseSystems \<and>
   (unitInterval rnd \<longrightarrow>
      list_all2 moved baseSystems
        (mutateDeployment baseSystems radarSecured geoData placementStrategy forceHighEntropy rnd) \<and>
      (list_all inBounds baseSystems \<longrightarrow>
         list_all inBounds
           (mutateDeployment baseSystems radarSecured geoData placementStrategy forceHighEntropy rnd)))"
proof -
  let ?out = "mutateDeployment baseSystems radarSecured geoData placementStrategy forceHighEntropy rnd"
  have len: "length ?out = length baseSystems"
    by (simp add: mutateDeployment_def mutateLoop_length)
  {
    assume u: "unitInterval rnd"
    then have m: "list_all2 moved baseSystems ?out"
      by (simp add: mutateDeployment_def mutateLoop_props)
    have "list_all inBounds ?out" if "list_all inBounds baseSystems"
      unfolding list_all_length
    proof (intro allI impI)
      fix i assume i: "i < length ?out"
      then have "moved (baseSystems ! i) (?out ! i)"
        using m len by (simp add: list_all2_conv_all_nth)
      moreover have "inBounds (baseSystems ! i)"
        using that i len by (simp add: list_all_length)
      ultimately show "inBounds (?out ! i)" by (auto simp: moved_def)
    qed
    note m this
  }
  then show ?thesis using len by blast
qed

theorem mutateDeployment_length_and_bounds_witness:
  "unitInterval (\<lambda>k. 1 / 10) \<and> list_all inBounds [demoRadar, barak] \<and>
   mutateDeployment [demoRadar, barak] False None ''inside'' True (\<lambda>k. 1 / 10) =
     [demoRadar \<lparr> sys_lat := 6.35, sys_lng := 79.5 \<rparr>,
      barak \<lparr> sys_lat := 6.55, sys_lng := 80.55 \<rparr>] \<and>
   list_all inBounds (mutateDeployment [demoRadar, barak] False None ''inside'' True (\<lambda>k. 1 / 10))"
proof -
  have 1: "unitInterval (\<lambda>k. 1 / 10)" by (simp add: unitInterval_def)
  have 2: "list_all inBounds [demoRadar, barak]"
    by (simp add: inBounds_def demoRadar_def barak_def SL_BOUNDS_def)
  have 3: "mutateDeployment [demoRadar, barak] False None ''inside'' True (\<lambda>k. 1 / 10) =
     [demoRadar \<lparr> sys_lat := 6.35, sys_lng := 79.5 \<rparr>,
      barak \<lparr> sys_lat := 6.55, sys_lng := 80.55 \<rparr>]"
    by (simp add: mutateDeployment_def mutateUnit_def demoRadar_def barak_def SL_BOUNDS_def)
  from mutateDeployment_length_and_bounds[of "[demoRadar, barak]" False None "''inside''" True
      "\<lambda>k. 1 / 10"] 1 2 3
  show ?thesis by simp
qed

text \<open>
  C8 as stated fails: a unit outside the box that is not selected for mutation (here a
  secured radar) is returned where it was.
\<close>

theorem mutateDeployment_outside_counterexample:
  "mutateDeployment [coastRadar] True None ''inside'' False (\<lambda>k. 1 / 2) = [coastRadar] \<and>
   maxLng SL_BOUNDS < sys_lng coastRadar \<and> \<not> inBounds coastRadar"
  by (simp add: mutateDeployment_def mutateUnit_def coastRadar_def inBounds_def SL_BOUNDS_def)

section \<open>Batch evaluator\<close>

lemma length_CITIES: "length CITIES = 11"
  by (simp add: CITIES_def)

lemma city_index:
  assumes "0 \<le> u" "u < 1"
  shows "0 \<le> \<lfloor>u * real (length CITIES)\<rfloor> \<and> \<lfloor>u * real (length CITIES)\<rfloor> < int (length CITIES)"
proof -
  have "0 \<le> u * 11" "u * 11 < 11" using assms by simp_all
  then show ?thesis by (simp add: length_CITIES floor_less_iff)
qed

lemma runTrial_counts:
  assumes "unitInterval rnd"
  shows "\<exists>st'. runTrial psd radars interceptors selectedMissile rnd r st = Inr st' \<and>
           totalLaunched st' = totalLaunched st + 1 \<and>
           interceptedCount st' + impactedCount st' = interceptedCount st + impactedCount st + 1"
proof -
  have "0 \<le> rnd (drawn st + 2)" "rnd (drawn st + 2) < 1"
    using assms by (simp_all add: unitInterval_def)
  from city_index[OF this]
  have k: "\<not> (\<lfloor>rnd (drawn st + 2) * real (length CITIES)\<rfloor> < 0 \<or>
             int (length CITIES) \<le> \<lfloor>rnd (drawn st + 2) * real (length CITIES)\<rfloor>)"
    by linarith
  show ?thesis
    unfolding runTrial_def Let_def using k by (simp only: if_False) simp
qed

lemma missilesLoop_counts:
  "unitInterval rnd \<Longrightarrow>
   \<exists>st'. missilesLoop psd radars interceptors selectedMissile rnd r m st = Inr st' \<and>
         totalLaunched st' = totalLaunched st + m \<and>
         interceptedCount st' + impactedCount st' = interceptedCount st + impactedCount st + m"
proof (induction m arbitrary: st)
  case 0
  then show ?case by simp
next
  case (Suc m)
  from runTrial_counts[OF Suc.prems, of psd radars interceptors selectedMissile r st]
  obtain st1 where 1: "runTrial psd radars interceptors selectedMissile rnd r st = Inr st1"
    "totalLaunched st1 = totalLaunched st + 1"
    "interceptedCount st1 + impactedCount st1 = interceptedCount st + impactedCount st + 1"
    by blast
  from Suc.IH[OF Suc.prems, of st1] obtain st' where
    2: "missilesLoop psd radars interceptors selectedMissile rnd r m st1 = Inr st'"
    "totalLaunched st' = totalLaunched st1 + m"
    "interceptedCount st' + impactedCount st' = interceptedCount st1 + impactedCount st1 + m"
    by blast
  show ?case using 1 2 by simp
qed

lemma roundsLoop_counts:
  "unitInterval rnd \<Longrightarrow>
   \<exists>st'. roundsLoop psd radars interceptors selectedMissile rnd missilesPerRound r left st = Inr st' \<and>
         totalLaunched st' = totalLaunched st + left * missilesPerRound \<and>
         interceptedCount st' + impactedCount st' =
           interceptedCount st + impactedCount st + left * missilesPerRound"
proof (induction left arbitrary: r st)
  case 0
  then show ?case by simp
next
  case (Suc left)
  from missilesLoop_counts[OF Suc.prems, of psd radars interceptors selectedMissile r missilesPerRound st]
  obtain st1 where
    1: "missilesLoop psd radars interceptors selectedMissile rnd r missilesPerRound st = Inr st1"
    "totalLaunched st1 = totalLaunched st + missilesPerRound"
    "interceptedCount st1 + impactedCount st1 =
       interceptedCount st + impactedCount st + missilesPerRound"
    by blast
  from Suc.IH[OF Suc.prems, of "r + 1" st1] obtain st' where
    2: "roundsLoop psd radars interceptors selectedMissile rnd missilesPerRound (r + 1) left st1 = Inr st'"
    "totalLaunched st' = totalLaunched st1 + left * missilesPerRound"
    "interceptedCount st' + impactedCount st' =
       interceptedCount st1 + impactedCount st1 + left * missilesPerRound"
    by blast
  show ?case using 1 2 by simp
qed

lemma floor_half_11: "\<lfloor>11 / 2 :: real\<rfloor> = 5"
  by (simp add: floor_eq_iff)

lemma batch_example:
  "runBatchTest (\<lambda>p a b. 0) [demoRadar, barak] 1 2 cruise (\<lambda>k. 1 / 2) =
     Inr \<lparr> results_totalLaunched = 2, results_intercepted = 2, results_impacted = 0,
           detectionRate = Some 100, logs = [] \<rparr>"
  by (simp add: runBatchTest_def runTrial_def numeral_2_eq_2 Let_def length_CITIES floor_half_11
        activeRadars_def activeInterceptors_def demoRadar_def barak_def nearPath_def
        fastEnough_def or_default_def cruise_def)

text \<open>
  C9. For natural numbers \<open>rounds\<close> and \<open>missilesPerRound\<close> and every sequence of
  draws in [0, 1), the batch run returns, its totalLaunched is rounds * missilesPerRound,
  and intercepted + impacted = totalLaunched.
\<close>

theorem runBatchTest_totals:
  "unitInterval rnd \<Longrightarrow>
   \<exists>res. runBatchTest psd systems rounds missilesPerRound selectedMissile rnd = Inr res \<and>
         results_totalLaunched res = rounds * missilesPerRound \<and>
         results_intercepted res + results_impacted res = results_totalLaunched res"
proof -
  assume u: "unitInterval rnd"
  let ?st0 = "\<lparr> totalLaunched = 0, interceptedCount = 0, impactedCount = 0, detectedCount = 0,
               batchLogs = [], drawn = 0 \<rparr>"
  from roundsLoop_counts[OF u, of psd "activeRadars systems" "activeInterceptors systems"
      selectedMissile missilesPerRound 0 rounds ?st0]
  obtain st where "roundsLoop psd (activeRadars systems) (activeInterceptors systems)
      selectedMissile rnd missilesPerRound 0 rounds ?st0 = Inr st"
    "totalLaunched st = rounds * missilesPerRound"
    "interceptedCount st + impactedCount st = rounds * missilesPerRound"
    by auto
  then show ?thesis by (simp add: runBatchTest_def)
qed

theorem runBatchTest_totals_witness:
  "unitInterval (\<lambda>k. 1 / 2) \<and>
   (\<exists>res. runBatchTest (\<lambda>p a b. 0) [demoRadar, barak] 2 3 cruise (\<lambda>k. 1 / 2) = Inr res \<and>
      results_totalLaunched res = 6 \<and> results_intercepted res + results_impacted res = 6) \<and>
   runBatchTest (\<lambda>p a b. 0) [demoRadar, barak] 1 2 cruise (\<lambda>k. 1 / 2) =
     Inr \<lparr> results_totalLaunched = 2, results_intercepted = 2, results_impacted = 0,
           detectionRate = Some 100, logs = [] \<rparr> \<and>
   (\<exists>res. runBatchTest (\<lambda>p a b. 0) [demoRadar] 0 3 cruise (\<lambda>k. 1 / 2) = Inr res \<and>
      results_totalLaunched res = 0 \<and> results_intercepted res + results_impacted res = 0)"
proof -
  have u: "unitInterval (\<lambda>k. 1 / 2)" by (simp add: unitInterval_def)
  from runBatchTest_totals[OF u, of "\<lambda>p a b. 0" "[demoRadar, barak]" 2 3 cruise]
       runBatchTest_totals[OF u, of "\<lambda>p a b. 0" "[demoRadar]" 0 3 cruise] u
  show ?thesis using batch_example by auto
qed

section \<open>Inactive units\<close>

lemma activeRadars_filter: "activeRadars (filter is_active systems) = activeRadars systems"
  by (induction systems) (auto simp: activeRadars_def is_active_def)

lemma activeInterceptors_filter:
  "activeInterceptors (filter is_active systems) = activeInterceptors systems"
  by (induction systems) (auto simp: activeInterceptors_def is_active_def)

lemma bestCandidates_filter: "bestCandidates (filter is_active systems) = bestCandidates systems"
  by (simp add: bestCandidates_def activeInterceptors_filter)

lemma set_bestCandidates: "x \<in> set (bestCandidates systems) \<Longrightarrow> x \<in> set systems \<and> is_active x"
  by (auto simp: bestCandidates_def activeInterceptors_def is_active_def)

lemma detectAndBind_filter:
  "detectAndBind d (filter is_active systems) np th = detectAndBind d systems np th"
  unfolding detectAndBind_def activeRadars_filter bestCandidates_filter by (rule refl)

lemma find_by_id:
  "distinct (map sys_id systems) \<Longrightarrow> x \<in> set systems \<Longrightarrow>
   List.find (\<lambda>s. Some (sys_id s) = Some (sys_id x)) systems = Some x"
  by (induction systems) auto

lemma nextInterceptorPos_filter:
  assumes "distinct (map sys_id systems)" "boundToActive systems th" "truthy_id (interceptorId th)"
  shows "nextInterceptorPos (filter is_active systems) dt np th ipos =
         nextInterceptorPos systems dt np th ipos"
proof -
  from assms(2,3) obtain x where x: "x \<in> set systems" "is_active x"
    "interceptorId th = Some (sys_id x)"
    by (auto simp: boundToActive_def)
  have d': "distinct (map sys_id (filter is_active systems))"
    using assms(1) by (rule distinct_map_filter)
  have "List.find (\<lambda>s. Some (sys_id s) = interceptorId th) systems = Some x"
    using find_by_id[OF assms(1) x(1)] x(3) by simp
  moreover have "List.find (\<lambda>s. Some (sys_id s) = interceptorId th) (filter is_active systems) = Some x"
    using find_by_id[OF d', of x] x by simp
  ultimately show ?thesis by (simp add: nextInterceptorPos_def)
qed

lemma pursueAndResolve_filter:
  assumes "distinct (map sys_id systems)" "boundToActive systems th"
  shows "pursueAndResolve d (filter is_active systems) cs dt np th =
         pursueAndResolve d systems cs dt np th"
proof (cases "truthy_id (interceptorId th)")
  case True
  then show ?thesis
    using nextInterceptorPos_filter[OF assms True]
    by (simp add: pursueAndResolve_def cong: option.case_cong)
next
  case False
  then show ?thesis by (simp add: pursueAndResolve_def)
qed

lemma bindFirst_binding:
  "bindFirst d th cands = Inr th' \<Longrightarrow>
   interceptorId th' = interceptorId th \<or> (\<exists>x \<in> set cands. interceptorId th' = Some (sys_id x))"
  by (induction cands) (auto split: sum.splits option.splits if_splits)

lemma detectAndBind_boundToActive:
  assumes "detectAndBind d systems np th = Inr th'" "boundToActive systems th"
  shows "boundToActive systems th'"
proof (cases "interceptorId th' = interceptorId th")
  case True
  then show ?thesis using assms(2) by (simp add: boundToActive_def)
next
  case False
  with assms(1) obtain th0 where "bindFirst d th0 (bestCandidates systems) = Inr th'"
    "interceptorId th0 = interceptorId th"
    by (auto simp: detectAndBind_def Let_def split: option.splits if_splits)
  with False bindFirst_binding[of d th0 "bestCandidates systems" th']
  obtain x where "x \<in> set (bestCandidates systems)" "interceptorId th' = Some (sys_id x)"
    by auto
  then show ?thesis using set_bestCandidates[of x systems] by (auto simp: boundToActive_def)
qed

lemma stepThreat_filter:
  assumes "distinct (map sys_id systems)" "boundToActive systems th"
  shows "stepThreat d (filter is_active systems) cs dt th = stepThreat d systems cs dt th"
proof (cases "status th = MOVING")
  case False
  then show ?thesis by (simp add: stepThreat_def)
next
  case True
  show ?thesis
  proof (cases "detectAndBind d systems (nextPosition dt th) th")
    case (Inl e)
    then show ?thesis using True by (simp add: stepThreat_def detectAndBind_filter)
  next
    case (Inr th1)
    from detectAndBind_boundToActive[OF Inr assms(2)] have "boundToActive systems th1" .
    from pursueAndResolve_filter[OF assms(1) this] Inr True
    show ?thesis by (simp add: stepThreat_def detectAndBind_filter)
  qed
qed

lemma stepThreat_boundToActive:
  assumes "stepThreat d systems cs dt th = Inr (th', r)" "boundToActive systems th"
  shows "boundToActive systems th'"
proof (cases "status th = MOVING")
  case False
  then show ?thesis using assms by (simp add: stepThreat_def)
next
  case True
  with assms(1) obtain th1 where b: "detectAndBind d systems (nextPosition dt th) th = Inr th1"
    and p: "pursueAndResolve d systems cs dt (nextPosition dt th) th1 = (th', r)"
    by (auto simp: stepThreat_def Let_def split: sum.splits)
  from detectAndBind_boundToActive[OF b assms(2)] pursueAndResolve_cases[OF p]
  show ?thesis by (simp add: boundToActive_def)
qed

lemma stepThreats_filter:
  assumes "distinct (map sys_id systems)"
  shows "list_all (boundToActive systems) ts \<Longrightarrow>
     stepThreats d (filter is_active systems) cs dt ts st = stepThreats d systems cs dt ts st \<and>
     (\<forall>ts' st'. stepThreats d systems cs dt ts st = Inr (ts', st') \<longrightarrow>
        list_all (boundToActive systems) ts')"
proof (induction ts arbitrary: st)
  case Nil
  then show ?case by simp
next
  case (Cons th ts)
  then have b: "boundToActive systems th" and bs: "list_all (boundToActive systems) ts"
    by simp_all
  note eq = stepThreat_filter[OF assms b, of d cs dt]
  show ?case
  proof (cases "stepThreat d systems cs dt th")
    case (Inl e)
    then show ?thesis using eq by simp
  next
    case (Inr res)
    obtain th' r where res: "res = (th', r)" by (cases res)
    from stepThreat_boundToActive[OF Inr[unfolded res] b] have b': "boundToActive systems th'" .
    from Cons.IH[OF bs, of "countResolution r st"] Inr res eq b'
    show ?thesis by (auto split: sum.splits)
  qed
qed

lemma substepLoop_filter:
  assumes "distinct (map sys_id systems)"
  shows "list_all (boundToActive systems) ts \<Longrightarrow>
     substepLoop d (filter is_active systems) cs dt n ts st = substepLoop d systems cs dt n ts st"
proof (induction n arbitrary: ts st)
  case 0
  then show ?case by simp
next
  case (Suc n)
  from stepThreats_filter[OF assms Suc.prems, of d cs dt st]
  have eq: "stepThreats d (filter is_active systems) cs dt ts st = stepThreats d systems cs dt ts st"
    and keep: "\<And>ts' st'. stepThreats d systems cs dt ts st = Inr (ts', st') \<Longrightarrow>
        list_all (boundToActive systems) ts'"
    by blast+
  show ?case
  proof (cases "stepThreats d systems cs dt ts st")
    case (Inl e)
    then show ?thesis using eq by simp
  next
    case (Inr res)
    obtain ts' st' where res: "res = (ts', st')" by (cases res)
    from Suc.IH[OF keep[OF Inr[unfolded res]], of st'] Inr res eq
    show ?thesis by simp
  qed
qed

lemma updateSimulation_filter:
  assumes "distinct (map sys_id systems)" "list_all (boundToActive systems) (threats s)"
  shows "updateSimulation d (filter is_active systems) cs time s =
         updateSimulation d systems cs time s"
  by (simp add: updateSimulation_def Let_def substepLoop_filter[OF assms])

lemma calculateScores_filter:
  "calculateScores d (filter is_active systems) geoData = calculateScores d systems geoData"
  unfolding calculateScores_def gridTally_def cityTotals_def activeRadars_filter
    activeInterceptors_filter
  by (rule refl)

lemma runBatchTest_filter:
  "runBatchTest psd (filter is_active systems) rounds missilesPerRound selectedMissile rnd =
   runBatchTest psd systems rounds missilesPerRound selectedMissile rnd"
  by (simp add: runBatchTest_def activeRadars_filter activeInterceptors_filter)

text \<open>
  C3 (as amended). Removing the inactive units from the system list changes nothing in a
  coverage evaluation, in a batch run, or in the detection and assignment of a sub-step.
  It changes nothing in a whole simulation tick either, as long as the ids are distinct and
  every bound threat is bound to an active unit. The pursuit and the kill check of a bound
  interceptor do not look at the active flag.
\<close>

theorem inactive_units_take_no_part:
  "calculateScores d (filter is_active systems) geoData = calculateScores d systems geoData \<and>
   runBatchTest psd (filter is_active systems) rounds missilesPerRound selectedMissile rnd =
     runBatchTest psd systems rounds missilesPerRound selectedMissile rnd \<and>
   detectAndBind d (filter is_active systems) nextPos threat = detectAndBind d systems nextPos threat \<and>
   (distinct (map sys_id systems) \<and> list_all (boundToActive systems) (threats s) \<longrightarrow>
      updateSimulation d (filter is_active systems) currentSpeed time s =
        updateSimulation d systems currentSpeed time s)"
  using calculateScores_filter runBatchTest_filter detectAndBind_filter updateSimulation_filter
  by blast

theorem inactive_units_take_no_part_witness:
  "distinct (map sys_id [radarEast, barak, odinOff]) \<and>
   list_all (boundToActive [radarEast, barak, odinOff]) (threats engagedState) \<and>
   \<not> is_active odinOff \<and>
   calculateScores planarDistance [radarEast, barak] (Some demoRegion) =
     calculateScores planarDistance [radarEast, barak, odinOff] (Some demoRegion) \<and>
   runBatchTest (\<lambda>p a b. 0) [radarEast, barak] 2 3 cruise (\<lambda>k. 1 / 2) =
     runBatchTest (\<lambda>p a b. 0) [radarEast, barak, odinOff] 2 3 cruise (\<lambda>k. 1 / 2) \<and>
   detectAndBind planarDistance [radarEast, barak] (latLng 7 80.9) demoThreat =
     detectAndBind planarDistance [radarEast, barak, odinOff] (latLng 7 80.9) demoThreat \<and>
   updateSimulation planarDistance [radarEast, barak] 1 1100 engagedState =
     updateSimulation planarDistance [radarEast, barak, odinOff] 1 1100 engagedState"
proof -
  have f: "filter is_active [radarEast, barak, odinOff] = [radarEast, barak]"
    by (simp add: is_active_def radarEast_def barak_def odinOff_def odin_def)
  have 1: "distinct (map sys_id [radarEast, barak, odinOff])"
    by (simp add: radarEast_def barak_def odinOff_def odin_def)
  have 2: "list_all (boundToActive [radarEast, barak, odinOff]) (threats engagedState)"
    by (simp add: engagedState_def boundToActive_def boundThreat_def is_active_def
          radarEast_def barak_def odinOff_def odin_def)
  have 3: "\<not> is_active odinOff" by (simp add: is_active_def odinOff_def)
  from inactive_units_take_no_part[where systems = "[radarEast, barak, odinOff]"
      and d = planarDistance and geoData = "Some demoRegion" and psd = "\<lambda>p a b. 0"
      and rounds = "2" and missilesPerRound = "3" and selectedMissile = cruise
      and rnd = "\<lambda>k. 1 / 2" and nextPos = "latLng 7 80.9" and threat = demoThreat
      and s = engagedState and currentSpeed = "1" and time = "1100"]
  show ?thesis unfolding f using 1 2 3 by simp
qed

text \<open>
  C3 as stated fails: a battery switched off after it was bound still pursues and kills.
  With the battery in the list the threat is INTERCEPTED in this sub-step; with the
  inactive battery left out of the list it is not.
\<close>

theorem inactive_interceptor_pursues_counterexample:
  "\<not> is_active barakOff \<and>
   interceptorId chasedThreat = Some (sys_id barakOff) \<and>
   filter is_active [radarEast, barakOff] = [radarEast] \<and>
   stepThreat planarDistance [radarEast, barakOff] 1 0.1 chasedThreat =
     Inr (chasedThreat \<lparr> detectedByRadarId := Some ''r2'', status := INTERCEPTED,
                         current := latLng 7 80.963 \<rparr>, Killed) \<and>
   stepThreat planarDistance [radarEast] 1 0.1 chasedThreat =
     Inr (chasedThreat \<lparr> detectedByRadarId := Some ''r2'',
                         interceptorPos := Some (latLng 7 80.978),
                         current := latLng 7 80.963 \<rparr>, Unresolved)"
  by (simp add: sim_defs is_active_def chasedThreat_def demoThreat_def radarEast_def
        barakOff_def barak_def)

end
